theory Spec2Isabelle
  imports Main "HOL-Library.Char_ord" "HOL-Library.List_Lexorder"
begin

section \<open>Data model (database.schemas.ts, agent.schemas.ts)\<close>

text \<open>
  The enums of \<^verbatim>\<open>database.schemas.ts\<close> are datatypes, the zod objects are records.
  JavaScript numbers that hold counters and indices are modelled as \<open>int\<close>; ISO-8601
  timestamps are the strings \<^verbatim>\<open>toISOString()\<close> produces, compared as text (which is how
  the TEXT columns are ordered). A nullable field is an \<open>option\<close>.
\<close>

datatype TicketStatus =
  draft | pending_approval | approved | in_progress | awaiting_input | paused
  | completed | failed | cancelled

datatype TicketPriority = low | medium | high | critical

datatype PlanStepStatus =
  step_pending | step_in_progress | step_completed | step_failed | step_skipped

datatype AgentPhase =
  planning | executing | reviewing | waiting | phase_completed

datatype input_kind = approval | answer

record TokenUsage =
  inputTokens :: int
  outputTokens :: int
  totalTokens :: int

record PlanStep =
  step_id :: string
  step_index :: int
  step_title :: string
  step_description :: string
  step_status :: PlanStepStatus
  startedAt :: "string option"
  completedAt :: "string option"
  step_output :: "string option"
  step_error :: "string option"
  retryCount :: int
  maxRetries :: int

record StructuredPlan =
  version :: int
  summary :: string
  steps :: "PlanStep list"
  generatedAt :: string
  approvedAt :: "string option"
  approvedBy :: "string option"

record PendingApproval =
  pa_type :: string
  pa_description :: string
  pa_requestedAt :: string

record PendingQuestion =
  pq_question :: string
  pq_options :: "string list option"
  pq_askedAt :: string

record CommitInfo =
  sha :: string
  commit_message :: string
  commit_timestamp :: string

text \<open>
  A row of the \<^verbatim>\<open>tickets\<close> table. The JSON text columns are kept as the values they
  serialise (\<^verbatim>\<open>rowToTicket\<close> parses what the service itself stringified), so a row
  and the \<^verbatim>\<open>Ticket\<close> read from it coincide.
\<close>

record TicketRow =
  id_col :: string
  title :: string
  description :: string
  status :: TicketStatus
  priority :: TicketPriority
  created_at :: string
  updated_at :: string
  resolved_at :: "string option"
  current_turn :: int
  max_turns :: int
  token_usage :: TokenUsage
  pending_approval_col :: "PendingApproval option"
  pending_question :: "PendingQuestion option"
  working_branch :: "string option"
  commits :: "CommitInfo list"
  structured_plan :: "StructuredPlan option"

record AuditLogRow =
  audit_id :: string
  audit_ticket_id :: string
  audit_timestamp :: string
  audit_type :: string
  audit_actor :: string
  audit_action :: string

record HumanInput =
  input_type :: input_kind
  approved_flag :: "bool option"
  answer_text :: "string option"

record ToolCall =
  tc_name :: string
  tc_args :: string
  tc_id :: "string option"

record usage_metadata =
  input_tokens :: "int option"
  output_tokens :: "int option"

text \<open>
  An \<^verbatim>\<open>AIMessage\<close>: its content is a string or, for multi-part content, something
  else (\<open>None\<close>); \<^verbatim>\<open>tool_calls\<close> absent is the empty list.
\<close>

record AIMessage =
  content :: "string option"
  tool_calls :: "ToolCall list"
  usage :: "usage_metadata option"

text \<open>
  A message is an instance of one of the message classes, or the plain object that
  \<^verbatim>\<open>JSON.parse\<close> makes of the text a message serialises to
  (\<^verbatim>\<open>{lc, type, id, kwargs}\<close>): \<open>PlainObject m\<close> is what the message \<open>m\<close> comes back as
  from the checkpoint table. Such an object has no \<^verbatim>\<open>content\<close> property.
\<close>

datatype BaseMessage =
  SystemMessage string
  | HumanMessage string
  | AIMsg AIMessage
  | ToolMessage string string
  | PlainObject BaseMessage

record llm_request =
  with_tools :: bool
  request_messages :: "BaseMessage list"

subsection \<open>The graph state (AgentStateAnnotation of agent.graph.ts)\<close>

record GraphState =
  ticketId :: string
  ticketTitle :: string
  ticketDescription :: string
  messages :: "BaseMessage list"
  structuredPlan :: "StructuredPlan option"
  currentStepIndex :: int
  phase :: AgentPhase
  tokenUsage :: TokenUsage
  waitingFor :: "input_kind option"
  humanInput :: "HumanInput option"
  planApprovalRequired :: bool
  error :: "string option"

text \<open>
  A \<^verbatim>\<open>Partial<GraphState>\<close>: what a node returns and what \<^verbatim>\<open>graph.invoke\<close> is given.
  \<open>None\<close> is an absent key; a present key of a nullable channel carries an \<open>option\<close>.
\<close>

record GraphUpdate =
  upd_ticketId :: "string option"
  upd_ticketTitle :: "string option"
  upd_ticketDescription :: "string option"
  upd_messages :: "BaseMessage list option"
  upd_structuredPlan :: "StructuredPlan option option"
  upd_currentStepIndex :: "int option"
  upd_phase :: "AgentPhase option"
  upd_tokenUsage :: "TokenUsage option"
  upd_waitingFor :: "input_kind option option"
  upd_humanInput :: "HumanInput option option"
  upd_planApprovalRequired :: "bool option"
  upd_error :: "string option option"

subsection \<open>The checkpoint table (migration 002)\<close>

text \<open>
  A checkpoint is its id and the channel values it snapshots; a row of
  \<^verbatim>\<open>agent_states\<close> (primary key \<^verbatim>\<open>(ticket_id, checkpoint_id)\<close>) holds the checkpoint
  that \<^verbatim>\<open>JSON.stringify\<close> serialised, its metadata and the pending writes
  \<^verbatim>\<open>[taskId, channel, value]\<close>.
\<close>

record Checkpoint =
  ck_id :: string
  channel_values :: GraphState

record AgentStateRow =
  ticket_id :: string
  checkpoint_id :: string
  parent_checkpoint_id :: "string option"
  state :: Checkpoint
  metadata :: "string option"
  pending_writes :: "(string \<times> string \<times> string) list option"
  row_created_at :: string
  row_updated_at :: "string option"

section \<open>The world: tables, clock, identifiers, requests sent to the reasoning engine\<close>

text \<open>
  Every effect of the services is a change of this record. \<^verbatim>\<open>new Date()\<close> reads
  \<open>wall_clock\<close> at the number of reads made so far, \<^verbatim>\<open>crypto.randomUUID()\<close> reads
  \<open>uuid_source\<close> likewise. \<open>auditService\<close> says whether an audit service is attached.
  Tables are lists of rows in storage order; \<^verbatim>\<open>tickets\<close>, whose primary key is the
  id alone, is a map.
\<close>

record world =
  tickets :: "string \<rightharpoonup> TicketRow"
  agent_states :: "AgentStateRow list"
  audit_logs :: "AuditLogRow list"
  auditService :: bool
  date_reads :: nat
  wall_clock :: "nat \<Rightarrow> string"
  uuid_reads :: nat
  uuid_source :: "nat \<Rightarrow> string"
  llm_calls :: "llm_request list"

datatype js_error =
  TicketNotFoundError string
  | InvalidStatusTransitionError TicketStatus TicketStatus
  | NoPendingApprovalError string
  | NoPendingQuestionError string
  | NoPlanError string
  | MaxTurnsExceededError int
  | AgentNotRunningError string
  | SyntaxError string
  | TypeError string
  | Error string
  | GraphRecursionError

definition Date_now :: "world \<Rightarrow> string \<times> world" where
  "Date_now w = (wall_clock w (date_reads w), w\<lparr>date_reads := Suc (date_reads w)\<rparr>)"

definition randomUUID :: "world \<Rightarrow> string \<times> world" where
  "randomUUID w = (uuid_source w (uuid_reads w), w\<lparr>uuid_reads := Suc (uuid_reads w)\<rparr>)"

subsection \<open>Rendering values inside template strings\<close>

function show_nat :: "nat \<Rightarrow> string" where
  "show_nat n =
     (if n < 10 then [''0123456789'' ! n]
      else show_nat (n div 10) @ [''0123456789'' ! (n mod 10)])"
  by pat_completeness auto
termination
  by (relation "measure id") auto

declare show_nat.simps [simp del]

definition show_int :: "int \<Rightarrow> string" where
  "show_int i = (if i < 0 then CHR ''-'' # show_nat (nat (- i)) else show_nat (nat i))"

fun TicketStatus_str :: "TicketStatus \<Rightarrow> string" where
  "TicketStatus_str draft = ''draft''"
| "TicketStatus_str pending_approval = ''pending_approval''"
| "TicketStatus_str approved = ''approved''"
| "TicketStatus_str in_progress = ''in_progress''"
| "TicketStatus_str awaiting_input = ''awaiting_input''"
| "TicketStatus_str paused = ''paused''"
| "TicketStatus_str completed = ''completed''"
| "TicketStatus_str failed = ''failed''"
| "TicketStatus_str cancelled = ''cancelled''"

section \<open>AuditService.log\<close>

text \<open>
  \<^verbatim>\<open>AuditService.log\<close> reads the clock, draws an id and inserts one row. The optional
  payload columns (reasoning, tool call, state change, token usage) repeat what the
  action text says and are not kept.
\<close>

definition AuditService_log ::
  "string \<Rightarrow> string \<Rightarrow> string \<Rightarrow> string \<Rightarrow> world \<Rightarrow> world" where
  "AuditService_log tid typ actor action w =
     (let (now, w1) = Date_now w;
          (uid, w2) = randomUUID w1
      in w2\<lparr>audit_logs := audit_logs w2 @
            [\<lparr>audit_id = uid, audit_ticket_id = tid, audit_timestamp = now,
              audit_type = typ, audit_actor = actor, audit_action = action\<rparr>]\<rparr>)"

section \<open>TicketService (tickets.ts)\<close>

fun VALID_TRANSITIONS :: "TicketStatus \<Rightarrow> TicketStatus list" where
  "VALID_TRANSITIONS draft = [pending_approval, cancelled]"
| "VALID_TRANSITIONS pending_approval = [approved, draft, cancelled]"
| "VALID_TRANSITIONS approved = [in_progress, cancelled]"
| "VALID_TRANSITIONS in_progress = [awaiting_input, paused, completed, failed, cancelled]"
| "VALID_TRANSITIONS awaiting_input = [in_progress, paused, cancelled]"
| "VALID_TRANSITIONS paused = [in_progress, cancelled]"
| "VALID_TRANSITIONS completed = []"
| "VALID_TRANSITIONS failed = [draft]"
| "VALID_TRANSITIONS cancelled = [draft]"

definition ticket_audit :: "string \<Rightarrow> string \<Rightarrow> string \<Rightarrow> world \<Rightarrow> world" where
  "ticket_audit tid typ action w =
     (if auditService w then AuditService_log tid typ ''system'' action w else w)"

definition get :: "string \<Rightarrow> world \<Rightarrow> js_error + TicketRow" where
  "get i w = (case tickets w i of None \<Rightarrow> Inl (TicketNotFoundError i) | Some row \<Rightarrow> Inr row)"

text \<open>\<^verbatim>\<open>db('tickets').where('id', id).update(updates)\<close>: rows that match are rewritten.\<close>

definition db_update :: "string \<Rightarrow> (TicketRow \<Rightarrow> TicketRow) \<Rightarrow> world \<Rightarrow> world" where
  "db_update i f w =
     (case tickets w i of None \<Rightarrow> w | Some row \<Rightarrow> w\<lparr>tickets := (tickets w)(i \<mapsto> f row)\<rparr>)"

definition get_after :: "string \<Rightarrow> world \<Rightarrow> (js_error + TicketRow) \<times> world" where
  "get_after i w = (get i w, w)"

definition transitionStatus ::
  "string \<Rightarrow> TicketStatus \<Rightarrow> world \<Rightarrow> (js_error + TicketRow) \<times> world" where
  "transitionStatus i newStatus w =
     (case get i w of
        Inl e \<Rightarrow> (Inl e, w)
      | Inr ticket \<Rightarrow>
          if newStatus \<notin> set (VALID_TRANSITIONS (status ticket))
          then (Inl (InvalidStatusTransitionError (status ticket) newStatus), w)
          else
            let (now, w1) = Date_now w;
                (resolved, w2) =
                  (if newStatus = completed \<or> newStatus = failed \<or> newStatus = cancelled
                   then (let (r, w') = Date_now w1 in (Some r, w'))
                   else (None, w1));
                w3 = db_update i
                       (\<lambda>row. (case resolved of
                                  None \<Rightarrow> row\<lparr>status := newStatus, updated_at := now\<rparr>
                                | Some r \<Rightarrow> row\<lparr>status := newStatus, updated_at := now,
                                               resolved_at := Some r\<rparr>)) w2;
                w4 = ticket_audit i ''status_changed''
                       (''Status changed from '' @ TicketStatus_str (status ticket) @ '' to '' @
                        TicketStatus_str newStatus) w3
            in get_after i w4)"


record CreateTicketInput =
  new_title :: string
  new_description :: string
  new_priority :: "TicketPriority option"
  new_maxTurns :: "int option"

record UpdateTicketInput =
  set_title :: "string option"
  set_description :: "string option"
  set_priority :: "TicketPriority option"
  set_maxTurns :: "int option"

text \<open>
  \<^verbatim>\<open>create\<close> takes the service's \<^verbatim>\<open>defaultMaxTurns\<close>. The insert fails on a primary
  key that is already stored.
\<close>

definition create :: "int \<Rightarrow> CreateTicketInput \<Rightarrow> world \<Rightarrow> (js_error + TicketRow) \<times> world" where
  "create defaultMaxTurns input w =
     (let (now, w1) = Date_now w;
          (i, w2) = randomUUID w1;
          row = \<lparr>id_col = i, title = new_title input, description = new_description input,
                 status = draft,
                 priority = (case new_priority input of None \<Rightarrow> medium | Some p \<Rightarrow> p),
                 created_at = now, updated_at = now, resolved_at = None,
                 current_turn = 0,
                 max_turns = (case new_maxTurns input of None \<Rightarrow> defaultMaxTurns | Some m \<Rightarrow> m),
                 token_usage = \<lparr>inputTokens = 0, outputTokens = 0, totalTokens = 0\<rparr>,
                 pending_approval_col = None, pending_question = None,
                 working_branch = None, commits = [], structured_plan = None\<rparr>
      in if tickets w2 i \<noteq> None then (Inl (Error ''UNIQUE constraint failed: tickets.id''), w2)
         else
           let w3 = w2\<lparr>tickets := (tickets w2)(i \<mapsto> row)\<rparr>;
               w4 = ticket_audit i ''ticket_created'' (''Created ticket: '' @ new_title input) w3
           in (Inr row, w4))"

definition update :: "string \<Rightarrow> UpdateTicketInput \<Rightarrow> world \<Rightarrow> (js_error + TicketRow) \<times> world" where
  "update i input w =
     (case get i w of
        Inl e \<Rightarrow> (Inl e, w)
      | Inr existing \<Rightarrow>
          let (now, w1) = Date_now w;
              w2 = db_update i
                     (\<lambda>row. row\<lparr>updated_at := now,
                               title := (case set_title input of None \<Rightarrow> title row | Some v \<Rightarrow> v),
                               description :=
                                 (case set_description input of None \<Rightarrow> description row | Some v \<Rightarrow> v),
                               priority :=
                                 (case set_priority input of None \<Rightarrow> priority row | Some v \<Rightarrow> v),
                               max_turns :=
                                 (case set_maxTurns input of None \<Rightarrow> max_turns row | Some v \<Rightarrow> v)\<rparr>) w1;
              w3 = ticket_audit i ''ticket_updated'' (''Updated ticket: '' @ title existing) w2
          in get_after i w3)"

definition delete :: "string \<Rightarrow> world \<Rightarrow> (js_error + unit) \<times> world" where
  "delete i w =
     (case get i w of
        Inl e \<Rightarrow> (Inl e, w)
      | Inr existing \<Rightarrow>
          let w1 = w\<lparr>audit_logs := filter (\<lambda>r. audit_ticket_id r \<noteq> i) (audit_logs w)\<rparr>;
              w2 = w1\<lparr>agent_states := filter (\<lambda>r. ticket_id r \<noteq> i) (agent_states w1)\<rparr>;
              w3 = w2\<lparr>tickets := (tickets w2)(i := None)\<rparr>;
              w4 = ticket_audit i ''ticket_updated'' (''Deleted ticket: '' @ title existing) w3
          in (Inr (), w4))"

definition approvePlan :: "string \<Rightarrow> string \<Rightarrow> world \<Rightarrow> (js_error + TicketRow) \<times> world" where
  "approvePlan i by_whom w =
     (case get i w of
        Inl e \<Rightarrow> (Inl e, w)
      | Inr ticket \<Rightarrow>
          (case structured_plan ticket of
             None \<Rightarrow> (Inl (NoPlanError i), w)
           | Some plan \<Rightarrow>
               let (now, w1) = Date_now w;
                   approvedPlan = plan\<lparr>approvedAt := Some now, approvedBy := Some by_whom\<rparr>;
                   w2 = db_update i
                          (\<lambda>row. row\<lparr>structured_plan := Some approvedPlan, status := approved,
                                    updated_at := now\<rparr>) w1;
                   w3 = ticket_audit i ''plan_approved'' (''Plan approved by '' @ by_whom) w2
               in get_after i w3))"

definition requestApproval ::
  "string \<Rightarrow> PendingApproval \<Rightarrow> world \<Rightarrow> (js_error + TicketRow) \<times> world" where
  "requestApproval i appr w =
     (case get i w of
        Inl e \<Rightarrow> (Inl e, w)
      | Inr _ \<Rightarrow>
          let (now, w1) = Date_now w;
              w2 = db_update i
                     (\<lambda>row. row\<lparr>pending_approval_col := Some appr, status := awaiting_input,
                               updated_at := now\<rparr>) w1;
              w3 = ticket_audit i ''approval_requested''
                     (''Approval requested: '' @ pa_description appr) w2
          in get_after i w3)"

definition grantApproval :: "string \<Rightarrow> world \<Rightarrow> (js_error + TicketRow) \<times> world" where
  "grantApproval i w =
     (case get i w of
        Inl e \<Rightarrow> (Inl e, w)
      | Inr ticket \<Rightarrow>
          if pending_approval_col ticket = None then (Inl (NoPendingApprovalError i), w)
          else
            let (now, w1) = Date_now w;
                w2 = db_update i
                       (\<lambda>row. row\<lparr>pending_approval_col := None, status := in_progress,
                                 updated_at := now\<rparr>) w1;
                w3 = ticket_audit i ''approval_granted'' ''Approval granted'' w2
            in get_after i w3)"

definition denyApproval :: "string \<Rightarrow> world \<Rightarrow> (js_error + TicketRow) \<times> world" where
  "denyApproval i w =
     (case get i w of
        Inl e \<Rightarrow> (Inl e, w)
      | Inr ticket \<Rightarrow>
          if pending_approval_col ticket = None then (Inl (NoPendingApprovalError i), w)
          else
            let (now, w1) = Date_now w;
                w2 = db_update i
                       (\<lambda>row. row\<lparr>pending_approval_col := None, status := in_progress,
                                 updated_at := now\<rparr>) w1;
                w3 = ticket_audit i ''approval_denied'' ''Approval denied'' w2
            in get_after i w3)"

definition askQuestion ::
  "string \<Rightarrow> PendingQuestion \<Rightarrow> world \<Rightarrow> (js_error + TicketRow) \<times> world" where
  "askQuestion i q w =
     (case get i w of
        Inl e \<Rightarrow> (Inl e, w)
      | Inr _ \<Rightarrow>
          let (now, w1) = Date_now w;
              w2 = db_update i
                     (\<lambda>row. row\<lparr>pending_question := Some q, status := awaiting_input,
                               updated_at := now\<rparr>) w1;
              w3 = ticket_audit i ''question_asked'' (''Question asked: '' @ pq_question q) w2
          in get_after i w3)"

definition answerQuestion :: "string \<Rightarrow> string \<Rightarrow> world \<Rightarrow> (js_error + TicketRow) \<times> world" where
  "answerQuestion i ans w =
     (case get i w of
        Inl e \<Rightarrow> (Inl e, w)
      | Inr ticket \<Rightarrow>
          if pending_question ticket = None then (Inl (NoPendingQuestionError i), w)
          else
            let (now, w1) = Date_now w;
                w2 = db_update i
                       (\<lambda>row. row\<lparr>pending_question := None, status := in_progress,
                                 updated_at := now\<rparr>) w1;
                w3 = ticket_audit i ''question_answered'' (''Question answered: '' @ ans) w2
            in get_after i w3)"

definition incrementTurn ::
  "string \<Rightarrow> TokenUsage option \<Rightarrow> world \<Rightarrow> (js_error + TicketRow) \<times> world" where
  "incrementTurn i usage_opt w =
     (case get i w of
        Inl e \<Rightarrow> (Inl e, w)
      | Inr ticket \<Rightarrow>
          let newTokenUsage =
                (case usage_opt of
                   Some u \<Rightarrow>
                     \<lparr>inputTokens = inputTokens (token_usage ticket) + inputTokens u,
                      outputTokens = outputTokens (token_usage ticket) + outputTokens u,
                      totalTokens = totalTokens (token_usage ticket) + totalTokens u\<rparr>
                 | None \<Rightarrow> token_usage ticket);
              (now, w1) = Date_now w;
              w2 = db_update i
                     (\<lambda>row. row\<lparr>current_turn := current_turn ticket + 1,
                               token_usage := newTokenUsage, updated_at := now\<rparr>) w1;
              w3 = ticket_audit i ''turn_completed''
                     (''Turn '' @ show_int (current_turn ticket + 1) @ '' completed'') w2
          in get_after i w3)"

definition addCommit :: "string \<Rightarrow> CommitInfo \<Rightarrow> world \<Rightarrow> (js_error + TicketRow) \<times> world" where
  "addCommit i c w =
     (case get i w of
        Inl e \<Rightarrow> (Inl e, w)
      | Inr ticket \<Rightarrow>
          let (now, w1) = Date_now w;
              w2 = db_update i (\<lambda>row. row\<lparr>commits := commits ticket @ [c], updated_at := now\<rparr>) w1;
              w3 = ticket_audit i ''commit_created'' (''Commit created: '' @ take 7 (sha c)) w2
          in get_after i w3)"

definition setWorkingBranch :: "string \<Rightarrow> string \<Rightarrow> world \<Rightarrow> (js_error + TicketRow) \<times> world" where
  "setWorkingBranch i branch w =
     (case get i w of
        Inl e \<Rightarrow> (Inl e, w)
      | Inr _ \<Rightarrow>
          let (now, w1) = Date_now w;
              w2 = db_update i (\<lambda>row. row\<lparr>working_branch := Some branch, updated_at := now\<rparr>) w1
          in get_after i w2)"

definition setStructuredPlan ::
  "string \<Rightarrow> StructuredPlan \<Rightarrow> world \<Rightarrow> (js_error + TicketRow) \<times> world" where
  "setStructuredPlan i plan w =
     (case get i w of
        Inl e \<Rightarrow> (Inl e, w)
      | Inr _ \<Rightarrow>
          let (now, w1) = Date_now w;
              w2 = db_update i (\<lambda>row. row\<lparr>structured_plan := Some plan, updated_at := now\<rparr>) w1;
              w3 = ticket_audit i ''plan_generated'' ''Structured plan generated'' w2
          in get_after i w3)"

text \<open>
  A \<^verbatim>\<open>Partial<PlanStep>\<close>: \<open>None\<close> is an absent key. \<^verbatim>\<open>{ ...step, ...update }\<close>
  overwrites exactly the keys that are present.
\<close>

record PlanStepUpdate =
  set_id :: "string option"
  set_index :: "int option"
  set_step_title :: "string option"
  set_step_description :: "string option"
  set_status :: "PlanStepStatus option"
  set_startedAt :: "string option option"
  set_completedAt :: "string option option"
  set_output :: "string option option"
  set_error :: "string option option"
  set_retryCount :: "int option"
  set_maxRetries :: "int option"

definition no_update :: PlanStepUpdate where
  "no_update =
     \<lparr>set_id = None, set_index = None, set_step_title = None, set_step_description = None,
      set_status = None, set_startedAt = None, set_completedAt = None, set_output = None,
      set_error = None, set_retryCount = None, set_maxRetries = None\<rparr>"

definition spread :: "PlanStep \<Rightarrow> PlanStepUpdate \<Rightarrow> PlanStep" where
  "spread step u =
     \<lparr>step_id = (case set_id u of None \<Rightarrow> step_id step | Some v \<Rightarrow> v),
      step_index = (case set_index u of None \<Rightarrow> step_index step | Some v \<Rightarrow> v),
      step_title = (case set_step_title u of None \<Rightarrow> step_title step | Some v \<Rightarrow> v),
      step_description =
        (case set_step_description u of None \<Rightarrow> step_description step | Some v \<Rightarrow> v),
      step_status = (case set_status u of None \<Rightarrow> step_status step | Some v \<Rightarrow> v),
      startedAt = (case set_startedAt u of None \<Rightarrow> startedAt step | Some v \<Rightarrow> v),
      completedAt = (case set_completedAt u of None \<Rightarrow> completedAt step | Some v \<Rightarrow> v),
      step_output = (case set_output u of None \<Rightarrow> step_output step | Some v \<Rightarrow> v),
      step_error = (case set_error u of None \<Rightarrow> step_error step | Some v \<Rightarrow> v),
      retryCount = (case set_retryCount u of None \<Rightarrow> retryCount step | Some v \<Rightarrow> v),
      maxRetries = (case set_maxRetries u of None \<Rightarrow> maxRetries step | Some v \<Rightarrow> v)\<rparr>"

text \<open>\<^verbatim>\<open>steps.map((step, idx) => idx === stepIndex ? {...step, ...update} : step)\<close>\<close>

definition map_steps :: "int \<Rightarrow> PlanStepUpdate \<Rightarrow> PlanStep list \<Rightarrow> PlanStep list" where
  "map_steps stepIndex u ss =
     map (\<lambda>(idx, step). if int idx = stepIndex then spread step u else step)
         (enumerate 0 ss)"

definition updatePlanStep ::
  "string \<Rightarrow> int \<Rightarrow> PlanStepUpdate \<Rightarrow> world \<Rightarrow> (js_error + TicketRow) \<times> world" where
  "updatePlanStep i stepIndex u w =
     (case get i w of
        Inl e \<Rightarrow> (Inl e, w)
      | Inr ticket \<Rightarrow>
          (case structured_plan ticket of
             None \<Rightarrow> (Inl (NoPlanError i), w)
           | Some plan \<Rightarrow>
               let updatedSteps = map_steps stepIndex u (steps plan);
                   updatedPlan = plan\<lparr>steps := updatedSteps\<rparr>;
                   (now, w1) = Date_now w;
                   w2 = db_update i
                          (\<lambda>row. row\<lparr>structured_plan := Some updatedPlan, updated_at := now\<rparr>) w1
               in get_after i w2))"

definition getCurrentStep :: "string \<Rightarrow> world \<Rightarrow> js_error + PlanStep option" where
  "getCurrentStep i w =
     (case get i w of
        Inl e \<Rightarrow> Inl e
      | Inr ticket \<Rightarrow>
          (case structured_plan ticket of
             None \<Rightarrow> Inr None
           | Some plan \<Rightarrow> Inr (find (\<lambda>step. step_status step = step_in_progress) (steps plan))))"

section \<open>DatabaseCheckpointer (agent.checkpointer.ts)\<close>

text \<open>
  The \<^verbatim>\<open>configurable\<close> part of a \<^verbatim>\<open>RunnableConfig\<close>. A JavaScript string is truthy
  unless it is empty, so an empty id counts as a missing one wherever the source tests
  \<^verbatim>\<open>if (id)\<close>.
\<close>

record RunnableConfig =
  thread_id :: "string option"
  config_checkpoint_id :: "string option"

record CheckpointTuple =
  tuple_config :: RunnableConfig
  tuple_checkpoint :: Checkpoint
  tuple_metadata :: "string option"
  parentConfig :: "RunnableConfig option"
  pendingWrites :: "(string \<times> string \<times> string) list option"

definition truthy :: "string option \<Rightarrow> bool" where
  "truthy v = (case v of None \<Rightarrow> False | Some s \<Rightarrow> s \<noteq> [])"

text \<open>
  \<^verbatim>\<open>orderBy('created_at', 'desc')\<close> as a stable insertion sort: rows with the same
  timestamp stay in storage order (SQL leaves their order open; no theorem below depends
  on it). \<^verbatim>\<open>first()\<close> is the head of the result.
\<close>

fun insert_desc :: "AgentStateRow \<Rightarrow> AgentStateRow list \<Rightarrow> AgentStateRow list" where
  "insert_desc r [] = [r]"
| "insert_desc r (x # xs) =
     (if row_created_at x \<le> row_created_at r then r # x # xs else x # insert_desc r xs)"

definition orderBy_created_at_desc :: "AgentStateRow list \<Rightarrow> AgentStateRow list" where
  "orderBy_created_at_desc rows = foldr insert_desc rows []"

definition first :: "'a list \<Rightarrow> 'a option" where
  "first xs = (case xs of [] \<Rightarrow> None | x # _ \<Rightarrow> Some x)"

text \<open>
  \<^verbatim>\<open>JSON.parse(row.state)\<close> of the text that \<^verbatim>\<open>JSON.stringify(checkpoint)\<close> wrote: every
  channel holds plain data and comes back as it was, except the messages, which come
  back as plain objects (a plain object serialises to itself).
\<close>

fun JSON_roundtrip_message :: "BaseMessage \<Rightarrow> BaseMessage" where
  "JSON_roundtrip_message (PlainObject m) = PlainObject m"
| "JSON_roundtrip_message (SystemMessage c) = PlainObject (SystemMessage c)"
| "JSON_roundtrip_message (HumanMessage c) = PlainObject (HumanMessage c)"
| "JSON_roundtrip_message (AIMsg m) = PlainObject (AIMsg m)"
| "JSON_roundtrip_message (ToolMessage c i) = PlainObject (ToolMessage c i)"

definition JSON_roundtrip :: "Checkpoint \<Rightarrow> Checkpoint" where
  "JSON_roundtrip checkpoint =
     checkpoint\<lparr>channel_values :=
       (channel_values checkpoint)
         \<lparr>messages := map JSON_roundtrip_message (messages (channel_values checkpoint))\<rparr>\<rparr>"

definition getTuple :: "RunnableConfig \<Rightarrow> world \<Rightarrow> CheckpointTuple option" where
  "getTuple config w =
     (case thread_id config of
        None \<Rightarrow> None
      | Some threadId \<Rightarrow>
          if threadId = [] then None
          else
            let query = filter (\<lambda>r. ticket_id r = threadId) (agent_states w);
                query' = (if truthy (config_checkpoint_id config)
                          then filter (\<lambda>r. Some (checkpoint_id r) = config_checkpoint_id config) query
                          else query)
            in (case first (orderBy_created_at_desc query') of
                  None \<Rightarrow> None
                | Some row \<Rightarrow>
                    Some \<lparr>tuple_config =
                            \<lparr>thread_id = Some threadId,
                             config_checkpoint_id = Some (ck_id (JSON_roundtrip (state row)))\<rparr>,
                          tuple_checkpoint = JSON_roundtrip (state row),
                          tuple_metadata = metadata row,
                          parentConfig =
                            (if truthy (parent_checkpoint_id row)
                             then Some \<lparr>thread_id = Some threadId,
                                        config_checkpoint_id = parent_checkpoint_id row\<rparr>
                             else None),
                          pendingWrites = pending_writes row\<rparr>))"

text \<open>
  \<^verbatim>\<open>insert(...).onConflict(['ticket_id', 'checkpoint_id']).merge({state, metadata,
  updated_at})\<close>: a stored row with the same key keeps its parent, its pending writes and
  its \<^verbatim>\<open>created_at\<close>; otherwise the new row is appended. \<^verbatim>\<open>agent_states.ticket_id\<close>
  references \<^verbatim>\<open>tickets.id\<close> (migration 002), so the statement fails, after the clock has
  been read, when no ticket with the thread's id is stored, and nothing is written; the
  error carries the database's message.
\<close>

definition put ::
  "RunnableConfig \<Rightarrow> Checkpoint \<Rightarrow> string \<Rightarrow> world \<Rightarrow> (js_error + RunnableConfig) \<times> world" where
  "put config checkpoint md w =
     (if \<not> truthy (thread_id config)
      then (Inl (Error ''thread_id is required in config.configurable''), w)
      else
        let threadId = (case thread_id config of None \<Rightarrow> [] | Some s \<Rightarrow> s);
            parentCheckpointId = config_checkpoint_id config;
            (now, w1) = Date_now w;
            same_key = (\<lambda>r. ticket_id r = threadId \<and> checkpoint_id r = ck_id checkpoint);
            rows = agent_states w1;
            rows' =
              (if \<exists>r \<in> set rows. same_key r
               then map (\<lambda>r. if same_key r
                               then r\<lparr>state := checkpoint, metadata := Some md,
                                      row_updated_at := Some now\<rparr>
                               else r) rows
               else rows @
                    [\<lparr>ticket_id = threadId, checkpoint_id = ck_id checkpoint,
                      parent_checkpoint_id = parentCheckpointId, state = checkpoint,
                      metadata = Some md, pending_writes = None, row_created_at = now,
                      row_updated_at = None\<rparr>])
        in if tickets w1 threadId = None
           then (Inl (Error ''SQLITE_CONSTRAINT: FOREIGN KEY constraint failed''), w1)
           else (Inr \<lparr>thread_id = Some threadId,
                      config_checkpoint_id = Some (ck_id checkpoint)\<rparr>,
                 w1\<lparr>agent_states := rows'\<rparr>))"

definition putWrites ::
  "RunnableConfig \<Rightarrow> (string \<times> string) list \<Rightarrow> string \<Rightarrow> world \<Rightarrow> (js_error + unit) \<times> world" where
  "putWrites config writes taskId w =
     (if \<not> truthy (thread_id config) \<or> \<not> truthy (config_checkpoint_id config)
      then (Inl (Error ''thread_id and checkpoint_id are required in config.configurable''), w)
      else
        let threadId = (case thread_id config of None \<Rightarrow> [] | Some s \<Rightarrow> s);
            checkpointId = (case config_checkpoint_id config of None \<Rightarrow> [] | Some s \<Rightarrow> s);
            same_key = (\<lambda>r. ticket_id r = threadId \<and> checkpoint_id r = checkpointId)
        in (case first (filter same_key (agent_states w)) of
              None \<Rightarrow> (Inl (Error (''Checkpoint not found: '' @ checkpointId)), w)
            | Some existingRow \<Rightarrow>
                let existingWrites =
                      (case pending_writes existingRow of None \<Rightarrow> [] | Some ws \<Rightarrow> ws);
                    newWrites = map (\<lambda>(channel, v). (taskId, channel, v)) writes;
                    allWrites = existingWrites @ newWrites;
                    (now, w1) = Date_now w
                in (Inr (),
                    w1\<lparr>agent_states :=
                         map (\<lambda>r. if same_key r
                                   then r\<lparr>pending_writes := Some allWrites,
                                          row_updated_at := Some now\<rparr>
                                   else r) (agent_states w1)\<rparr>)))"

definition deleteThread :: "string \<Rightarrow> world \<Rightarrow> world" where
  "deleteThread threadId w =
     w\<lparr>agent_states := filter (\<lambda>r. ticket_id r \<noteq> threadId) (agent_states w)\<rparr>"

section \<open>The agent graph (agent.graph.ts)\<close>

subsection \<open>String helpers of JavaScript\<close>

fun starts_with :: "string \<Rightarrow> string \<Rightarrow> bool" where
  "starts_with s [] = True"
| "starts_with [] (c # cs) = False"
| "starts_with (x # xs) (c # cs) = (x = c \<and> starts_with xs cs)"

text \<open>\<^verbatim>\<open>s.includes(sub)\<close>\<close>

fun str_includes :: "string \<Rightarrow> string \<Rightarrow> bool" where
  "str_includes [] sub = (sub = [])"
| "str_includes (x # xs) sub = (starts_with (x # xs) sub \<or> str_includes xs sub)"

text \<open>\<^verbatim>\<open>xs.join(sep)\<close>\<close>

fun join :: "string \<Rightarrow> string list \<Rightarrow> string" where
  "join sep [] = []"
| "join sep [x] = x"
| "join sep (x # y # ys) = x @ sep @ join sep (y # ys)"

text \<open>
  \<^verbatim>\<open>s.match(/\{[\s\S]*\}/)\<close>: the match runs from the first opening brace to the last
  closing brace after it, and there is none when no closing brace follows an opening one.
\<close>

definition match_braces :: "string \<Rightarrow> string option" where
  "match_braces s =
     (let from_open = dropWhile (\<lambda>c. c \<noteq> CHR ''{'') s
      in if from_open = [] then None
         else
           let back = dropWhile (\<lambda>c. c \<noteq> CHR ''}'') (rev (tl from_open))
           in if back = [] then None else Some (CHR ''{'' # rev back))"

subsection \<open>JSON values and what \<^verbatim>\<open>JSON.parse\<close> returns\<close>

text \<open>
  \<^verbatim>\<open>JSON.parse\<close> is the platform's; the planning node takes it as a parameter that
  returns the parsed value or the message of the \<^verbatim>\<open>SyntaxError\<close> it throws. An object
  is its properties in order, each key once. A number is kept as its decimal text.
\<close>

datatype json =
  JNull | JBool bool | JNumber string | JString string | JArray "json list"
  | JObject "(string \<times> json) list"

text \<open>Reading a property: \<open>None\<close> is \<^verbatim>\<open>undefined\<close>. Reading one of \<^verbatim>\<open>null\<close> throws.\<close>

definition property :: "json \<Rightarrow> string \<Rightarrow> js_error + json option" where
  "property v k =
     (case v of
        JNull \<Rightarrow> Inl (TypeError (''Cannot read properties of null (reading '' @ [CHR 0x27] @ k @ [CHR 0x27] @ '')''))
      | JObject props \<Rightarrow> Inr (map_of props k)
      | _ \<Rightarrow> Inr None)"

text \<open>
  The plan's \<^verbatim>\<open>summary\<close>, \<^verbatim>\<open>title\<close> and \<^verbatim>\<open>description\<close> are typed as strings but
  not checked; every later use puts them in a template string. A value that is not a
  string is kept as the text a template string shows for it.
\<close>

fun template_text :: "json \<Rightarrow> string" where
  "template_text JNull = ''null''"
| "template_text (JBool b) = (if b then ''true'' else ''false'')"
| "template_text (JNumber n) = n"
| "template_text (JString s) = s"
| "template_text (JArray xs) =
     join '','' (map (\<lambda>x. if x = JNull then [] else template_text x) xs)"
| "template_text (JObject props) = ''[object Object]''"

definition template_text_opt :: "json option \<Rightarrow> string" where
  "template_text_opt v = (case v of None \<Rightarrow> ''undefined'' | Some x \<Rightarrow> template_text x)"

subsection \<open>The reasoning engine and the tools\<close>

text \<open>
  The reasoning engine answers a request; its answer may depend on the requests made
  before (the log of the world). Every call is appended to that log. \<^verbatim>\<open>bindTools\<close>
  only tells the engine which tools exist: a bound call is the same engine with
  \<open>with_tools\<close> set.
\<close>

type_synonym ChatOpenAI = "llm_request list \<Rightarrow> llm_request \<Rightarrow> AIMessage"

definition llm_invoke ::
  "ChatOpenAI \<Rightarrow> bool \<Rightarrow> BaseMessage list \<Rightarrow> world \<Rightarrow> AIMessage \<times> world" where
  "llm_invoke llm bound msgs w =
     (let req = \<lparr>with_tools = bound, request_messages = msgs\<rparr>
      in (llm (llm_calls w) req, w\<lparr>llm_calls := llm_calls w @ [req]\<rparr>))"

text \<open>
  A tool is its name and what invoking it does: it returns the text of its result (the
  result itself when it is a string, its JSON text otherwise) or throws, and it may
  change the world.
\<close>

datatype tool_outcome = Returned string | Threw string

record DynamicStructuredTool =
  tool_name :: string
  invoke :: "string \<Rightarrow> world \<Rightarrow> tool_outcome \<times> world"

definition extractTokenUsage :: "AIMessage \<Rightarrow> TokenUsage" where
  "extractTokenUsage response =
     (case usage response of
        None \<Rightarrow> \<lparr>inputTokens = 0, outputTokens = 0, totalTokens = 0\<rparr>
      | Some u \<Rightarrow>
          \<lparr>inputTokens = (case input_tokens u of None \<Rightarrow> 0 | Some n \<Rightarrow> n),
           outputTokens = (case output_tokens u of None \<Rightarrow> 0 | Some n \<Rightarrow> n),
           totalTokens = (case input_tokens u of None \<Rightarrow> 0 | Some n \<Rightarrow> n) +
                         (case output_tokens u of None \<Rightarrow> 0 | Some n \<Rightarrow> n)\<rparr>)"

subsection \<open>State channels and their reducers\<close>

definition default_state :: GraphState where
  "default_state =
     \<lparr>ticketId = [], ticketTitle = [], ticketDescription = [], messages = [],
      structuredPlan = None, currentStepIndex = 0, phase = planning,
      tokenUsage = \<lparr>inputTokens = 0, outputTokens = 0, totalTokens = 0\<rparr>,
      waitingFor = None, humanInput = None, planApprovalRequired = True, error = None\<rparr>"

definition no_change :: GraphUpdate where
  "no_change =
     \<lparr>upd_ticketId = None, upd_ticketTitle = None, upd_ticketDescription = None,
      upd_messages = None, upd_structuredPlan = None, upd_currentStepIndex = None,
      upd_phase = None, upd_tokenUsage = None, upd_waitingFor = None, upd_humanInput = None,
      upd_planApprovalRequired = None, upd_error = None\<rparr>"

text \<open>
  Writing an update into the channels: \<^verbatim>\<open>messages\<close> appends, \<^verbatim>\<open>tokenUsage\<close> adds
  component by component, every other channel takes the new value; an absent key leaves
  its channel alone.
\<close>

definition apply_update :: "GraphState \<Rightarrow> GraphUpdate \<Rightarrow> GraphState" where
  "apply_update s u =
     \<lparr>ticketId = (case upd_ticketId u of None \<Rightarrow> ticketId s | Some v \<Rightarrow> v),
      ticketTitle = (case upd_ticketTitle u of None \<Rightarrow> ticketTitle s | Some v \<Rightarrow> v),
      ticketDescription =
        (case upd_ticketDescription u of None \<Rightarrow> ticketDescription s | Some v \<Rightarrow> v),
      messages = (case upd_messages u of None \<Rightarrow> messages s | Some v \<Rightarrow> messages s @ v),
      structuredPlan = (case upd_structuredPlan u of None \<Rightarrow> structuredPlan s | Some v \<Rightarrow> v),
      currentStepIndex =
        (case upd_currentStepIndex u of None \<Rightarrow> currentStepIndex s | Some v \<Rightarrow> v),
      phase = (case upd_phase u of None \<Rightarrow> phase s | Some v \<Rightarrow> v),
      tokenUsage =
        (case upd_tokenUsage u of
           None \<Rightarrow> tokenUsage s
         | Some v \<Rightarrow>
             \<lparr>inputTokens = inputTokens (tokenUsage s) + inputTokens v,
              outputTokens = outputTokens (tokenUsage s) + outputTokens v,
              totalTokens = totalTokens (tokenUsage s) + totalTokens v\<rparr>),
      waitingFor = (case upd_waitingFor u of None \<Rightarrow> waitingFor s | Some v \<Rightarrow> v),
      humanInput = (case upd_humanInput u of None \<Rightarrow> humanInput s | Some v \<Rightarrow> v),
      planApprovalRequired =
        (case upd_planApprovalRequired u of None \<Rightarrow> planApprovalRequired s | Some v \<Rightarrow> v),
      error = (case upd_error u of None \<Rightarrow> error s | Some v \<Rightarrow> v)\<rparr>"

subsection \<open>Prompts\<close>

definition SYSTEM_PROMPT :: string where
  \<open>SYSTEM_PROMPT =
     ''You are Aura, an autonomous AI agent that helps with software engineering tasks.\<newline>\<newline>'' @
     ''You work on tickets that describe changes to be made to a codebase. Your job is to:\<newline>'' @
     ''1. Understand the ticket requirements\<newline>'' @
     ''2. Create a plan to implement the changes\<newline>'' @
     ''3. Execute the plan using the available tools\<newline>'' @
     ''4. Verify your changes work correctly\<newline>\<newline>'' @
     ''Available tools allow you to:\<newline>'' @
     ''- Read, write, and delete files in the git worktree\<newline>'' @
     ''- Check git status and create commits\<newline>'' @
     ''- Run validation checks on files\<newline>'' @
     ''- Ask questions or request approval from the user\<newline>\<newline>'' @
     ''Guidelines:\<newline>'' @
     ''- Always read files before modifying them to understand the existing code\<newline>'' @
     ''- Make small, incremental changes and verify each step\<newline>'' @
     ''- Write clear commit messages explaining what changed\<newline>'' @
     ''- Request approval for destructive operations\<newline>'' @
     ''- Ask clarifying questions if requirements are unclear\<newline>\<newline>'' @
     ''When creating a plan, break it down into clear, actionable steps.\<newline>'' @
     ''When executing, work through steps one at a time, verifying each before moving on.''\<close>

definition planPrompt :: "GraphState \<Rightarrow> string" where
  \<open>planPrompt s =
     ''You are working on ticket: "'' @ ticketTitle s @ ''"\<newline>\<newline>'' @
     ''Description:\<newline>'' @ ticketDescription s @ ''\<newline>\<newline>'' @
     ''Create a detailed plan to accomplish this task. You MUST respond with valid JSON in this exact format:\<newline>'' @
     ''{\<newline>'' @
     ''  "summary": "Brief summary of the approach",\<newline>'' @
     ''  "steps": [\<newline>'' @
     ''    {\<newline>'' @
     ''      "title": "Short title for step 1",\<newline>'' @
     ''      "description": "Detailed description of what this step accomplishes"\<newline>'' @
     ''    },\<newline>'' @
     ''    {\<newline>'' @
     ''      "title": "Short title for step 2",\<newline>'' @
     ''      "description": "Detailed description of what this step accomplishes"\<newline>'' @
     ''    }\<newline>'' @
     ''  ]\<newline>'' @
     ''}\<newline>\<newline>'' @
     ''Requirements:\<newline>'' @
     ''- Each step should be specific and actionable\<newline>'' @
     ''- Steps should be in logical order\<newline>'' @
     ''- Provide 3-10 steps depending on task complexity\<newline>'' @
     ''- Respond ONLY with the JSON, no other text''\<close>

definition output_or_Done :: "PlanStep \<Rightarrow> string" where
  "output_or_Done st = (case step_output st of None \<Rightarrow> ''Done'' | Some out \<Rightarrow> out)"

definition step_line :: "PlanStep \<Rightarrow> string" where
  "step_line st = show_int (step_index st + 1) @ ''. '' @ step_title st"

definition step_line_with_output :: "PlanStep \<Rightarrow> string" where
  "step_line_with_output st = step_line st @ '': '' @ output_or_Done st"

definition executePrompt :: "GraphState \<Rightarrow> StructuredPlan \<Rightarrow> PlanStep \<Rightarrow> string" where
  \<open>executePrompt s plan currentStep =
     (let completedSteps =
            join ''\<newline>''
              (map step_line_with_output
                 (filter (\<lambda>st. step_status st = step_completed) (steps plan)));
          planSummary = join ''\<newline>'' (map step_line (steps plan))
      in ''Continue executing the plan. You are on Step '' @ show_int (currentStepIndex s + 1) @
         '' of '' @ show_nat (length (steps plan)) @ ''.\<newline>\<newline>'' @
         ''Current step: '' @ step_title currentStep @ ''\<newline>'' @
         step_description currentStep @ ''\<newline>\<newline>'' @
         ''Full plan:\<newline>'' @ planSummary @ ''\<newline>\<newline>'' @
         (if completedSteps \<noteq> [] then ''Completed steps:\<newline>'' @ completedSteps else []) @
         ''\<newline>\<newline>'' @
         ''Execute the current step using the available tools. After completing the step, briefly describe what you did.'')\<close>

definition reviewPrompt :: "StructuredPlan \<Rightarrow> string" where
  \<open>reviewPrompt plan =
     (let completedSteps = join ''\<newline>'' (map step_line_with_output (steps plan))
      in ''All steps have been completed. Review the work done:\<newline>\<newline>'' @
         ''Plan Summary: '' @ summary plan @ ''\<newline>\<newline>'' @
         ''Completed steps:\<newline>'' @ completedSteps @ ''\<newline>\<newline>'' @
         ''Verify that the task has been completed successfully. If everything looks good, respond with "TASK_COMPLETE".\<newline>'' @
         ''If there are issues or more work needed, explain what needs to be done.'')\<close>

subsection \<open>The planning node\<close>

text \<open>
  \<^verbatim>\<open>parsed.steps.map((step, index) => ({ id: crypto.randomUUID(), index, title: step.title,
  ... }))\<close>: the id is drawn before the element's properties are read.
\<close>

fun make_steps :: "json list \<Rightarrow> int \<Rightarrow> world \<Rightarrow> (js_error + PlanStep list) \<times> world" where
  "make_steps [] idx w = (Inr [], w)"
| "make_steps (x # xs) idx w =
     (let (uid, w1) = randomUUID w
      in (case property x ''title'' of
            Inl e \<Rightarrow> (Inl e, w1)
          | Inr t \<Rightarrow>
              (case property x ''description'' of
                 Inl e \<Rightarrow> (Inl e, w1)
               | Inr d \<Rightarrow>
                   (case make_steps xs (idx + 1) w1 of
                      (Inl e, w2) \<Rightarrow> (Inl e, w2)
                    | (Inr rest, w2) \<Rightarrow>
                        (Inr (\<lparr>step_id = uid, step_index = idx,
                               step_title = template_text_opt t,
                               step_description = template_text_opt d,
                               step_status = step_pending, startedAt = None,
                               completedAt = None, step_output = None, step_error = None,
                               retryCount = 0, maxRetries = 3\<rparr> # rest), w2)))))"

definition createPlanNode ::
  "(string \<Rightarrow> string + json) \<Rightarrow> ChatOpenAI \<Rightarrow> bool \<Rightarrow> GraphState \<Rightarrow> world
     \<Rightarrow> (js_error + GraphUpdate) \<times> world" where
  "createPlanNode JSON_parse llm ticketService s w =
     (let prompt = planPrompt s;
          (response, w1) =
             llm_invoke llm False [SystemMessage SYSTEM_PROMPT, HumanMessage prompt] w;
          used = extractTokenUsage response;
          planContent = (case content response of None \<Rightarrow> [] | Some c \<Rightarrow> c)
      in (case match_braces planContent of
            None \<Rightarrow>
              (Inr (no_change
                     \<lparr>upd_messages := Some [HumanMessage prompt, AIMsg response],
                      upd_error :=
                        Some (Some ''Failed to parse plan: No valid JSON found in response''),
                      upd_phase := Some phase_completed,
                      upd_tokenUsage := Some used\<rparr>), w1)
          | Some jsonMatch \<Rightarrow>
              (case JSON_parse jsonMatch of
                 Inl msg \<Rightarrow> (Inl (SyntaxError msg), w1)
               | Inr parsed \<Rightarrow>
                   let (now, w2) = Date_now w1
                   in (case property parsed ''steps'' of
                         Inl e \<Rightarrow> (Inl e, w2)
                       | Inr None \<Rightarrow>
                           (Inl (TypeError
                              (''Cannot read properties of undefined (reading '' @ [CHR 0x27] @
                               ''map'' @ [CHR 0x27] @ '')'')), w2)
                       | Inr (Some JNull) \<Rightarrow>
                           (Inl (TypeError
                              (''Cannot read properties of null (reading '' @ [CHR 0x27] @
                               ''map'' @ [CHR 0x27] @ '')'')), w2)
                       | Inr (Some (JArray xs)) \<Rightarrow>
                           (case make_steps xs 0 w2 of
                              (Inl e, w3) \<Rightarrow> (Inl e, w3)
                            | (Inr new_steps, w3) \<Rightarrow>
                                let plan_summary =
                                      (case property parsed ''summary'' of
                                         Inl e \<Rightarrow> ''undefined''
                                       | Inr v \<Rightarrow> template_text_opt v);
                                    plan = \<lparr>version = 1, summary = plan_summary,
                                            steps = new_steps, generatedAt = now,
                                            approvedAt = None, approvedBy = None\<rparr>;
                                    result =
                                      no_change
                                        \<lparr>upd_messages := Some [HumanMessage prompt, AIMsg response],
                                         upd_structuredPlan := Some (Some plan),
                                         upd_currentStepIndex := Some 0,
                                         upd_phase :=
                                           Some (if planApprovalRequired s then waiting
                                                 else executing),
                                         upd_waitingFor :=
                                           Some (if planApprovalRequired s then Some approval
                                                 else None),
                                         upd_tokenUsage := Some used\<rparr>
                                in if ticketService
                                   then (case setStructuredPlan (ticketId s) plan w3 of
                                           (Inl e, w4) \<Rightarrow> (Inl e, w4)
                                         | (Inr _, w4) \<Rightarrow> (Inr result, w4))
                                   else (Inr result, w3))
                       | Inr (Some _) \<Rightarrow>
                           (Inl (TypeError ''parsed.steps.map is not a function''), w2)))))"

subsection \<open>The execute node\<close>

text \<open>\<^verbatim>\<open>xs[i]\<close> of JavaScript: \<^verbatim>\<open>undefined\<close> outside the array.\<close>

definition at_index :: "'a list \<Rightarrow> int \<Rightarrow> 'a option" where
  "at_index xs i = (if 0 \<le> i \<and> i < int (length xs) then Some (xs ! nat i) else None)"

text \<open>
  \<^verbatim>\<open>lastMessage?.content?.toString() ?? ''\<close>: content that is not a string shows as an
  object; a plain object has no content.
\<close>

fun message_text :: "BaseMessage \<Rightarrow> string" where
  "message_text (SystemMessage c) = c"
| "message_text (HumanMessage c) = c"
| "message_text (AIMsg m) = (case content m of None \<Rightarrow> ''[object Object]'' | Some c \<Rightarrow> c)"
| "message_text (ToolMessage c _) = c"
| "message_text (PlainObject m) = []"

text \<open>
  The loop over \<^verbatim>\<open>response.tool_calls\<close>: a call whose name no tool carries is passed
  over; a tool that throws leaves an error message and the loop goes on.
\<close>

text \<open>\<^verbatim>\<open>toolCall.id ?? ''\<close>\<close>

definition call_id :: "ToolCall \<Rightarrow> string" where
  "call_id toolCall = (case tc_id toolCall of None \<Rightarrow> [] | Some i \<Rightarrow> i)"

fun run_tool_calls ::
  "DynamicStructuredTool list \<Rightarrow> ToolCall list \<Rightarrow> world \<Rightarrow> BaseMessage list \<times> world" where
  "run_tool_calls tools [] w = ([], w)"
| "run_tool_calls tools (toolCall # rest) w =
     (case find (\<lambda>t. tool_name t = tc_name toolCall) tools of
        None \<Rightarrow> run_tool_calls tools rest w
      | Some tool \<Rightarrow>
          let (outcome, w1) = invoke tool (tc_args toolCall) w;
              msg = (case outcome of
                       Returned r \<Rightarrow> ToolMessage r (call_id toolCall)
                     | Threw m \<Rightarrow> ToolMessage (''Error: '' @ m) (call_id toolCall));
              (msgs, w2) = run_tool_calls tools rest w1
          in (msg # msgs, w2))"

text \<open>
  The parts of the execute node, in the order the source runs them: the prompt is added
  on a fresh execution; the current step is marked \<^verbatim>\<open>in_progress\<close> when the state's copy
  of it is pending; after an answer without tool calls it is marked \<^verbatim>\<open>completed\<close>.
\<close>

definition execute_new_messages :: "GraphState \<Rightarrow> StructuredPlan \<Rightarrow> PlanStep \<Rightarrow> BaseMessage list" where
  "execute_new_messages s plan currentStep =
     (let lastContent = (if messages s = [] then [] else message_text (last (messages s)))
      in if messages s = [] \<or> \<not> str_includes lastContent ''Continue executing''
         then [HumanMessage (executePrompt s plan currentStep)] else [])"

definition mark_in_progress ::
  "bool \<Rightarrow> GraphState \<Rightarrow> PlanStep \<Rightarrow> world \<Rightarrow> js_error option \<times> world" where
  "mark_in_progress ticketService s currentStep w =
     (if ticketService \<and> step_status currentStep = step_pending
      then (let (now, w0) = Date_now w
            in (case updatePlanStep (ticketId s) (currentStepIndex s)
                       (no_update\<lparr>set_status := Some step_in_progress,
                                  set_startedAt := Some (Some now)\<rparr>) w0 of
                  (Inl e, w') \<Rightarrow> (Some e, w')
                | (Inr _, w') \<Rightarrow> (None, w')))
      else (None, w))"

definition mark_completed ::
  "bool \<Rightarrow> GraphState \<Rightarrow> string \<Rightarrow> world \<Rightarrow> js_error option \<times> world" where
  "mark_completed ticketService s stepOutput w =
     (if ticketService
      then (let (now, w0) = Date_now w
            in (case updatePlanStep (ticketId s) (currentStepIndex s)
                       (no_update\<lparr>set_status := Some step_completed,
                                  set_completedAt := Some (Some now),
                                  set_output := Some (Some stepOutput)\<rparr>) w0 of
                  (Inl e, w') \<Rightarrow> (Some e, w')
                | (Inr _, w') \<Rightarrow> (None, w')))
      else (None, w))"

definition createExecuteNode ::
  "ChatOpenAI \<Rightarrow> DynamicStructuredTool list \<Rightarrow> bool \<Rightarrow> GraphState \<Rightarrow> world
     \<Rightarrow> (js_error + GraphUpdate) \<times> world" where
  "createExecuteNode llm tools ticketService s w =
     (case structuredPlan s of
        None \<Rightarrow>
          (Inr (no_change\<lparr>upd_error := Some (Some ''No structured plan available''),
                          upd_phase := Some phase_completed\<rparr>), w)
      | Some plan \<Rightarrow>
          (case at_index (steps plan) (currentStepIndex s) of
             None \<Rightarrow>
               (Inr (no_change
                      \<lparr>upd_error :=
                         Some (Some (''Invalid step index: '' @ show_int (currentStepIndex s))),
                       upd_phase := Some phase_completed\<rparr>), w)
           | Some currentStep \<Rightarrow>
               let newMessages = execute_new_messages s plan currentStep
               in (case mark_in_progress ticketService s currentStep w of
                     (Some e, w1) \<Rightarrow> (Inl e, w1)
                   | (None, w1) \<Rightarrow>
                       let allMessages = [SystemMessage SYSTEM_PROMPT] @ messages s @ newMessages;
                           (response, w2) = llm_invoke llm True allMessages w1;
                           used = extractTokenUsage response;
                           newMessages2 = newMessages @ [AIMsg response]
                       in if tool_calls response \<noteq> []
                          then
                            (let (tool_msgs, w3) = run_tool_calls tools (tool_calls response) w2
                             in (Inr (no_change\<lparr>upd_messages := Some (newMessages2 @ tool_msgs),
                                                upd_tokenUsage := Some used,
                                                upd_phase := Some executing\<rparr>), w3))
                          else
                            (let stepOutput =
                                   (case content response of
                                      None \<Rightarrow> ''Step completed'' | Some c \<Rightarrow> c)
                             in (case mark_completed ticketService s stepOutput w2 of
                                   (Some e, w3) \<Rightarrow> (Inl e, w3)
                                 | (None, w3) \<Rightarrow>
                                     (Inr (no_change
                                            \<lparr>upd_messages := Some newMessages2,
                                             upd_currentStepIndex := Some (currentStepIndex s + 1),
                                             upd_tokenUsage := Some used,
                                             upd_phase := Some reviewing\<rparr>), w3))))))"

subsection \<open>The review node\<close>

definition createReviewNode ::
  "ChatOpenAI \<Rightarrow> GraphState \<Rightarrow> world \<Rightarrow> (js_error + GraphUpdate) \<times> world" where
  "createReviewNode llm s w =
     (case structuredPlan s of
        None \<Rightarrow>
          (Inr (no_change\<lparr>upd_error := Some (Some ''No structured plan available for review''),
                          upd_phase := Some phase_completed\<rparr>), w)
      | Some plan \<Rightarrow>
          let totalSteps = int (length (steps plan))
          in if currentStepIndex s \<ge> totalSteps
             then
               (let prompt = reviewPrompt plan;
                    (response, w1) =
                       llm_invoke llm False
                         ([SystemMessage SYSTEM_PROMPT] @ messages s @ [HumanMessage prompt]) w;
                    used = extractTokenUsage response;
                    text = (case content response of None \<Rightarrow> [] | Some c \<Rightarrow> c)
                in if str_includes text ''TASK_COMPLETE''
                   then (Inr (no_change\<lparr>upd_messages := Some [HumanMessage prompt, AIMsg response],
                                         upd_phase := Some phase_completed,
                                         upd_tokenUsage := Some used\<rparr>), w1)
                   else (Inr (no_change\<lparr>upd_messages := Some [HumanMessage prompt, AIMsg response],
                                         upd_phase := Some executing,
                                         upd_tokenUsage := Some used\<rparr>), w1))
             else (Inr (no_change\<lparr>upd_phase := Some executing\<rparr>), w))"

subsection \<open>The wait node\<close>

definition createWaitNode :: "GraphState \<Rightarrow> world \<Rightarrow> (js_error + GraphUpdate) \<times> world" where
  "createWaitNode s w =
     (case humanInput s of
        Some given \<Rightarrow>
          (case input_type given of
             approval \<Rightarrow>
               if approved_flag given = Some True
               then (Inr (no_change
                           \<lparr>upd_phase := Some executing, upd_waitingFor := Some None,
                            upd_humanInput := Some None,
                            upd_messages :=
                              Some [HumanMessage ''Plan approved. Proceeding with execution.'']\<rparr>), w)
               else (Inr (no_change
                           \<lparr>upd_phase := Some phase_completed, upd_waitingFor := Some None,
                            upd_humanInput := Some None,
                            upd_error := Some (Some ''Plan was rejected by user'')\<rparr>), w)
           | answer \<Rightarrow>
               (Inr (no_change
                      \<lparr>upd_phase := Some executing, upd_waitingFor := Some None,
                       upd_humanInput := Some None,
                       upd_messages :=
                         Some [HumanMessage
                                 (''User response: '' @
                                  (case answer_text given of
                                     None \<Rightarrow> ''undefined'' | Some a \<Rightarrow> a))]\<rparr>), w))
      | None \<Rightarrow> (Inr no_change, w))"

subsection \<open>Conditional edges\<close>

definition routeAfterPlan :: "GraphState \<Rightarrow> string" where
  "routeAfterPlan s =
     (if phase s = phase_completed then ''end''
      else if phase s = waiting then ''wait''
      else ''execute'')"

definition routeAfterExecute :: "GraphState \<Rightarrow> string" where
  "routeAfterExecute s =
     (if phase s = waiting then ''wait''
      else if phase s = reviewing then ''review''
      else ''execute'')"

definition routeAfterReview :: "GraphState \<Rightarrow> string" where
  "routeAfterReview s =
     (if phase s = phase_completed then ''end''
      else if phase s = planning then ''planning''
      else ''execute'')"

definition routeAfterWait :: "GraphState \<Rightarrow> string" where
  "routeAfterWait s =
     (if phase s = phase_completed then ''end''
      else if phase s = executing then ''execute''
      else ''end'')"

definition routeFromStart :: "GraphState \<Rightarrow> string" where
  "routeFromStart s =
     (if structuredPlan s \<noteq> None \<and> (phase s = waiting \<or> waitingFor s \<noteq> None) then ''wait''
      else if structuredPlan s \<noteq> None \<and> (phase s = executing \<or> phase s = reviewing)
      then ''execute''
      else ''planning'')"

subsection \<open>The graph: nodes, edges and the run loop\<close>

datatype node = planning_node | execute_node | review_node | wait_node | END

text \<open>
  \<^verbatim>\<open>addConditionalEdges(source, router, mapping)\<close>: the router's answer is looked up in
  the mapping of its source; \<open>None\<close> as source is \<^verbatim>\<open>START\<close>.
\<close>

fun edge_mapping :: "node option \<Rightarrow> (string \<times> node) list" where
  "edge_mapping None =
     [(''planning'', planning_node), (''wait'', wait_node), (''execute'', execute_node)]"
| "edge_mapping (Some planning_node) =
     [(''end'', END), (''wait'', wait_node), (''execute'', execute_node)]"
| "edge_mapping (Some execute_node) =
     [(''wait'', wait_node), (''review'', review_node), (''execute'', execute_node)]"
| "edge_mapping (Some review_node) =
     [(''end'', END), (''planning'', planning_node), (''execute'', execute_node)]"
| "edge_mapping (Some wait_node) = [(''end'', END), (''execute'', execute_node)]"
| "edge_mapping (Some END) = []"

fun router :: "node option \<Rightarrow> GraphState \<Rightarrow> string" where
  "router None s = routeFromStart s"
| "router (Some planning_node) s = routeAfterPlan s"
| "router (Some execute_node) s = routeAfterExecute s"
| "router (Some review_node) s = routeAfterReview s"
| "router (Some wait_node) s = routeAfterWait s"
| "router (Some END) s = ''end''"

definition next_node :: "node option \<Rightarrow> GraphState \<Rightarrow> node option" where
  "next_node src s = map_of (edge_mapping src) (router src s)"

subsection \<open>Running the compiled graph\<close>

text \<open>
  What \<^verbatim>\<open>createAgentGraph(llm, tools, ticketService).compile({ checkpointer })\<close> is
  given, with the platform's \<^verbatim>\<open>JSON.parse\<close>. No call of \<^verbatim>\<open>invoke\<close> in the repository
  configures the recursion limit, so it is the library's default.
\<close>

record CompiledGraph =
  graph_JSON_parse :: "string \<Rightarrow> string + json"
  graph_llm :: ChatOpenAI
  graph_tools :: "DynamicStructuredTool list"
  graph_ticketService :: bool
  graph_checkpointer :: bool

definition recursionLimit :: nat where
  "recursionLimit = 25"

definition run_node ::
  "CompiledGraph \<Rightarrow> node \<Rightarrow> GraphState \<Rightarrow> world \<Rightarrow> (js_error + GraphUpdate) \<times> world" where
  "run_node g nd s w =
     (case nd of
        planning_node \<Rightarrow>
          createPlanNode (graph_JSON_parse g) (graph_llm g) (graph_ticketService g) s w
      | execute_node \<Rightarrow>
          createExecuteNode (graph_llm g) (graph_tools g) (graph_ticketService g) s w
      | review_node \<Rightarrow> createReviewNode (graph_llm g) s w
      | wait_node \<Rightarrow> createWaitNode s w
      | END \<Rightarrow> (Inr no_change, w))"

text \<open>
  The runtime of the graph library, as far as the services rely on it: nodes run one
  after the other; the update a node returns is written through the reducers; after
  every step the state is saved as a new checkpoint whose parent is the one before; the
  conditional edge of the node picks the next node; a run that has not reached the end
  within the recursion limit throws. A call with input on a thread that has a checkpoint
  starts from the newest checkpoint's state, writes the input through the reducers and
  enters at \<^verbatim>\<open>START\<close>. The second component of the result is the list of nodes that
  ran, each with the state it was given.
\<close>

definition save_checkpoint ::
  "CompiledGraph \<Rightarrow> string \<Rightarrow> string option \<Rightarrow> GraphState \<Rightarrow> world
     \<Rightarrow> (js_error + string option) \<times> world" where
  "save_checkpoint g thread parent s w =
     (if graph_checkpointer g
      then (let (cid, w1) = randomUUID w
            in (case put \<lparr>thread_id = Some thread, config_checkpoint_id = parent\<rparr>
                         \<lparr>ck_id = cid, channel_values = s\<rparr> ''loop'' w1 of
                  (Inl e, w2) \<Rightarrow> (Inl e, w2)
                | (Inr _, w2) \<Rightarrow> (Inr (Some cid), w2)))
      else (Inr None, w))"

fun drive ::
  "CompiledGraph \<Rightarrow> string \<Rightarrow> nat \<Rightarrow> node \<Rightarrow> string option \<Rightarrow> GraphState \<Rightarrow> world
     \<Rightarrow> (js_error + GraphState) \<times> (node \<times> GraphState) list \<times> world" where
  "drive g thread n END parent s w = (Inr s, [], w)"
| "drive g thread 0 nd parent s w = (Inl GraphRecursionError, [], w)"
| "drive g thread (Suc n) nd parent s w =
     (case run_node g nd s w of
        (Inl e, w1) \<Rightarrow> (Inl e, [(nd, s)], w1)
      | (Inr u, w1) \<Rightarrow>
          let s1 = apply_update s u
          in (case save_checkpoint g thread parent s1 w1 of
                (Inl e, w2) \<Rightarrow> (Inl e, [(nd, s)], w2)
              | (Inr saved, w2) \<Rightarrow>
                  (case next_node (Some nd) s1 of
                     None \<Rightarrow> (Inl (Error ''Branch condition returned unknown destination''),
                               [(nd, s)], w2)
                   | Some nd' \<Rightarrow>
                       let (r, visited, w3) = drive g thread n nd' saved s1 w2
                       in (r, (nd, s) # visited, w3))))"

definition graph_invoke ::
  "CompiledGraph \<Rightarrow> GraphUpdate \<Rightarrow> string \<Rightarrow> world
     \<Rightarrow> (js_error + GraphState) \<times> (node \<times> GraphState) list \<times> world" where
  "graph_invoke g input thread w =
     (let latest = (if graph_checkpointer g
                    then getTuple \<lparr>thread_id = Some thread, config_checkpoint_id = None\<rparr> w
                    else None);
          base = (case latest of
                    None \<Rightarrow> default_state
                  | Some tuple \<Rightarrow> channel_values (tuple_checkpoint tuple));
          parent = (case latest of
                      None \<Rightarrow> None
                    | Some tuple \<Rightarrow> Some (ck_id (tuple_checkpoint tuple)));
          s0 = apply_update base input
      in (case save_checkpoint g thread parent s0 w of
            (Inl e, w1) \<Rightarrow> (Inl e, [], w1)
          | (Inr saved, w1) \<Rightarrow>
              (case next_node None s0 of
                 None \<Rightarrow> (Inl (Error ''Branch condition returned unknown destination''), [], w1)
               | Some nd \<Rightarrow> drive g thread recursionLimit nd saved s0 w1)))"

section \<open>AgentService\<close>

record AgentRunResult =
  result_ticketId :: string
  result_phase :: AgentPhase
  success :: bool
  result_error :: "string option"
  result_waitingFor :: "input_kind option"

text \<open>
  The service's collaborators: the configuration flag, the compiled graph, and the git
  service, of which \<open>run\<close> needs to know whether the work tree exists and whether
  creating it throws.
\<close>

record AgentService =
  config_planApprovalRequired :: bool
  graph :: CompiledGraph
  getWorktree_resolves :: "string \<Rightarrow> bool"
  createWorktree_throws :: "string \<Rightarrow> js_error option"

fun error_message :: "js_error \<Rightarrow> string" where
  "error_message (TicketNotFoundError i) = ''Ticket not found: '' @ i"
| "error_message (InvalidStatusTransitionError a b) =
     ''Invalid status transition from '' @ [CHR 0x22] @ TicketStatus_str a @ [CHR 0x22] @ '' to '' @
     [CHR 0x22] @ TicketStatus_str b @ [CHR 0x22]"
| "error_message (NoPendingApprovalError i) = ''No pending approval for ticket: '' @ i"
| "error_message (NoPendingQuestionError i) = ''No pending question for ticket: '' @ i"
| "error_message (NoPlanError i) = ''No plan exists for ticket: '' @ i"
| "error_message (MaxTurnsExceededError n) = ''Maximum turns exceeded: '' @ show_int n"
| "error_message (AgentNotRunningError i) = ''Agent is not running for ticket: '' @ i"
| "error_message (SyntaxError m) = m"
| "error_message (TypeError m) = m"
| "error_message (Error m) = m"
| "error_message GraphRecursionError = ''Recursion limit reached without hitting a stop condition''"

definition agent_audit :: "string \<Rightarrow> string \<Rightarrow> string \<Rightarrow> world \<Rightarrow> world" where
  "agent_audit tid typ action w =
     (if auditService w then AuditService_log tid typ ''agent'' action w else w)"

text \<open>The state \<open>run\<close> hands to the graph.\<close>

definition run_initial_state :: "AgentService \<Rightarrow> string \<Rightarrow> TicketRow \<Rightarrow> GraphUpdate" where
  "run_initial_state svc tid ticket =
     (let hasApprovedPlan =
            (case structured_plan ticket of None \<Rightarrow> False | Some p \<Rightarrow> approvedAt p \<noteq> None)
      in if hasApprovedPlan
         then no_change
                \<lparr>upd_ticketId := Some tid,
                 upd_ticketTitle := Some (title ticket),
                 upd_ticketDescription := Some (description ticket),
                 upd_planApprovalRequired := Some (config_planApprovalRequired svc),
                 upd_structuredPlan := Some (structured_plan ticket),
                 upd_phase := Some waiting,
                 upd_waitingFor := Some (Some approval),
                 upd_humanInput :=
                   Some (Some \<lparr>input_type = approval, approved_flag = Some True,
                               answer_text = None\<rparr>)\<rparr>
         else no_change
                \<lparr>upd_ticketId := Some tid,
                 upd_ticketTitle := Some (title ticket),
                 upd_ticketDescription := Some (description ticket),
                 upd_planApprovalRequired := Some (config_planApprovalRequired svc)\<rparr>)"

text \<open>The \<^verbatim>\<open>catch\<close> block of \<open>run\<close> and \<open>resume\<close>.\<close>

definition caught :: "string \<Rightarrow> js_error \<Rightarrow> world \<Rightarrow> (js_error + AgentRunResult) \<times> world" where
  "caught tid e w =
     (Inr \<lparr>result_ticketId = tid, result_phase = phase_completed, success = False,
           result_error = Some (error_message e), result_waitingFor = None\<rparr>,
      agent_audit tid ''agent_completed'' (''Agent failed: '' @ error_message e) w)"

definition run_result :: "string \<Rightarrow> GraphState \<Rightarrow> AgentRunResult" where
  "run_result tid result =
     \<lparr>result_ticketId = tid, result_phase = phase result,
      success = (phase result = phase_completed), result_error = None,
      result_waitingFor = waitingFor result\<rparr>"

text \<open>
  What \<open>run\<close> does with the graph's result inside the \<^verbatim>\<open>try\<close> block: the turn is
  counted with the result's token usage, then the status follows the phase.
\<close>

definition run_settle :: "string \<Rightarrow> GraphState \<Rightarrow> world \<Rightarrow> (js_error + AgentRunResult) \<times> world" where
  "run_settle tid result w =
     (case incrementTurn tid (Some (tokenUsage result)) w of
        (Inl e, w1) \<Rightarrow> caught tid e w1
      | (Inr _, w1) \<Rightarrow>
          if phase result = phase_completed
          then (case transitionStatus tid completed w1 of
                  (Inl e, w2) \<Rightarrow> caught tid e w2
                | (Inr _, w2) \<Rightarrow>
                    (Inr (run_result tid result),
                     agent_audit tid ''agent_completed'' ''Agent completed successfully'' w2))
          else if phase result = waiting
          then (let target =
                      (if waitingFor result = Some approval \<and>
                          (case structuredPlan result of
                             None \<Rightarrow> False | Some p \<Rightarrow> \<not> truthy (approvedAt p))
                       then pending_approval else awaiting_input)
                in (case transitionStatus tid target w1 of
                      (Inl e, w2) \<Rightarrow> caught tid e w2
                    | (Inr _, w2) \<Rightarrow> (Inr (run_result tid result), w2)))
          else (Inr (run_result tid result), w1))"

text \<open>
  \<open>run\<close> up to the call of the graph: the ticket is read, the turn budget is checked, the
  work tree is ensured, the start is logged and an approved ticket is moved to
  \<^verbatim>\<open>in_progress\<close>. Whatever throws here is thrown by \<open>run\<close>.
\<close>

definition run_prepare :: "AgentService \<Rightarrow> string \<Rightarrow> world \<Rightarrow> (js_error + TicketRow) \<times> world" where
  "run_prepare svc tid w =
     (case get tid w of
        Inl e \<Rightarrow> (Inl e, w)
      | Inr ticket \<Rightarrow>
          if current_turn ticket \<ge> max_turns ticket
          then (Inl (MaxTurnsExceededError (max_turns ticket)), w)
          else
            (case (if getWorktree_resolves svc tid then None else createWorktree_throws svc tid) of
               Some e \<Rightarrow> (Inl e, w)
             | None \<Rightarrow>
                 let w1 = agent_audit tid ''agent_started''
                            (''Agent started for ticket: '' @ title ticket) w
                 in if status ticket = approved
                    then (case transitionStatus tid in_progress w1 of
                            (Inl e, w2) \<Rightarrow> (Inl e, w2)
                          | (Inr _, w2) \<Rightarrow> (Inr ticket, w2))
                    else (Inr ticket, w1)))"

text \<open>
  \<open>run\<close>. Beside what the source returns, the result carries the list of nodes that ran
  in the call, each with the state it was given, as the graph's run reports it.
\<close>

definition run ::
  "AgentService \<Rightarrow> string \<Rightarrow> world
     \<Rightarrow> (js_error + AgentRunResult) \<times> (node \<times> GraphState) list \<times> world" where
  "run svc tid w =
     (case run_prepare svc tid w of
        (Inl e, w2) \<Rightarrow> (Inl e, [], w2)
      | (Inr ticket, w2) \<Rightarrow>
          (case graph_invoke (graph svc) (run_initial_state svc tid ticket) tid w2 of
             (Inl e, visited, w3) \<Rightarrow>
               (case caught tid e w3 of (res, w4) \<Rightarrow> (res, visited, w4))
           | (Inr result, visited, w3) \<Rightarrow>
               (case run_settle tid result w3 of (res, w4) \<Rightarrow> (res, visited, w4))))"

definition resume_settle ::
  "string \<Rightarrow> GraphState \<Rightarrow> world \<Rightarrow> (js_error + AgentRunResult) \<times> world" where
  "resume_settle tid result w =
     (case incrementTurn tid (Some (tokenUsage result)) w of
        (Inl e, w1) \<Rightarrow> caught tid e w1
      | (Inr _, w1) \<Rightarrow>
          if phase result = phase_completed
          then (case transitionStatus tid completed w1 of
                  (Inl e, w2) \<Rightarrow> caught tid e w2
                | (Inr _, w2) \<Rightarrow>
                    (Inr (run_result tid result),
                     agent_audit tid ''agent_completed'' ''Agent completed successfully'' w2))
          else if phase result = waiting
          then (case transitionStatus tid awaiting_input w1 of
                  (Inl e, w2) \<Rightarrow> caught tid e w2
                | (Inr _, w2) \<Rightarrow> (Inr (run_result tid result), w2))
          else (Inr (run_result tid result), w1))"

text \<open>
  \<open>resume\<close>. Clearing what the ticket waits for, according to the input.
\<close>

definition record_input ::
  "string \<Rightarrow> HumanInput option \<Rightarrow> world \<Rightarrow> (js_error + unit) \<times> world" where
  "record_input tid given w =
     (case given of
        None \<Rightarrow> (Inr (), w)
      | Some inp \<Rightarrow>
          (case input_type inp of
             approval \<Rightarrow>
               (case (if approved_flag inp = Some True then grantApproval tid w
                      else denyApproval tid w) of
                  (Inl e, w1) \<Rightarrow> (Inl e, w1)
                | (Inr _, w1) \<Rightarrow> (Inr (), w1))
           | answer \<Rightarrow>
               (if truthy (answer_text inp)
                then (case answerQuestion tid
                             (case answer_text inp of None \<Rightarrow> [] | Some a \<Rightarrow> a) w of
                        (Inl e, w1) \<Rightarrow> (Inl e, w1)
                      | (Inr _, w1) \<Rightarrow> (Inr (), w1))
                else (Inr (), w))))"

text \<open>
  The input \<open>resume\<close> hands to the graph, \<^verbatim>\<open>{ humanInput: input }\<close>: an input that was
  not given writes nothing.
\<close>

definition resume_input :: "HumanInput option \<Rightarrow> GraphUpdate" where
  "resume_input given =
     no_change\<lparr>upd_humanInput := (case given of None \<Rightarrow> None | Some inp \<Rightarrow> Some (Some inp))\<rparr>"

text \<open>
  \<open>resume\<close> up to the call of the graph: the ticket is read, the turn budget is checked,
  the pending approval or question is cleared according to the input, and the turn is
  logged. Whatever throws here is thrown by \<open>resume\<close>. \<^verbatim>\<open>graph.getState\<close> only reads, and
  the snapshot it returns always has a \<^verbatim>\<open>values\<close> object (an empty one for a thread
  without a checkpoint), so the test \<^verbatim>\<open>!currentState.values\<close> is never true and
  \<^verbatim>\<open>AgentNotRunningError\<close> is never thrown.
\<close>

definition resume_prepare ::
  "AgentService \<Rightarrow> string \<Rightarrow> HumanInput option \<Rightarrow> world \<Rightarrow> (js_error + unit) \<times> world" where
  "resume_prepare svc tid given w =
     (case get tid w of
        Inl e \<Rightarrow> (Inl e, w)
      | Inr ticket \<Rightarrow>
          if current_turn ticket \<ge> max_turns ticket
          then (Inl (MaxTurnsExceededError (max_turns ticket)), w)
          else
            (case record_input tid given w of
               (Inl e, w1) \<Rightarrow> (Inl e, w1)
             | (Inr _, w1) \<Rightarrow>
                 (Inr (),
                  agent_audit tid ''agent_turn_started''
                    (''Agent resumed with input: '' @
                     (case given of
                        None \<Rightarrow> ''none''
                      | Some inp \<Rightarrow>
                          (case input_type inp of
                             approval \<Rightarrow> ''approval'' | answer \<Rightarrow> ''answer''))) w1)))"

definition resume ::
  "AgentService \<Rightarrow> string \<Rightarrow> HumanInput option \<Rightarrow> world
     \<Rightarrow> (js_error + AgentRunResult) \<times> (node \<times> GraphState) list \<times> world" where
  "resume svc tid given w =
     (case resume_prepare svc tid given w of
        (Inl e, w2) \<Rightarrow> (Inl e, [], w2)
      | (Inr _, w2) \<Rightarrow>
          (case graph_invoke (graph svc) (resume_input given) tid w2 of
             (Inl e, visited, w3) \<Rightarrow>
               (case caught tid e w3 of (res, w4) \<Rightarrow> (res, visited, w4))
           | (Inr result, visited, w3) \<Rightarrow>
               (case resume_settle tid result w3 of (res, w4) \<Rightarrow> (res, visited, w4))))"

definition cancel :: "AgentService \<Rightarrow> string \<Rightarrow> world \<Rightarrow> world" where
  "cancel svc tid w =
     (let w1 = deleteThread tid w;
          w2 = snd (transitionStatus tid cancelled w1)
      in agent_audit tid ''agent_completed'' ''Agent cancelled by user'' w2)"

section \<open>The specification's transition table and example data\<close>

text \<open>
  The allowed transitions as the specification lists them, to be compared with
  \<open>VALID_TRANSITIONS\<close> of the source.
\<close>

fun spec_allowed :: "TicketStatus \<Rightarrow> TicketStatus set" where
  "spec_allowed draft = {pending_approval, cancelled}"
| "spec_allowed pending_approval = {approved, draft, cancelled}"
| "spec_allowed approved = {in_progress, cancelled}"
| "spec_allowed in_progress = {awaiting_input, paused, completed, failed, cancelled}"
| "spec_allowed awaiting_input = {in_progress, paused, cancelled}"
| "spec_allowed paused = {in_progress, cancelled}"
| "spec_allowed completed = {}"
| "spec_allowed failed = {draft}"
| "spec_allowed cancelled = {draft}"

text \<open>A ticket as \<open>create\<close> leaves it, in a store that holds nothing else.\<close>

definition demo_ticket :: TicketRow where
  "demo_ticket =
     \<lparr>id_col = ''T1'', title = ''Deploy'', description = ''Deploy the app'', status = draft,
      priority = medium, created_at = ''2024-01-01T00:00:00.000Z'',
      updated_at = ''2024-01-01T00:00:00.000Z'', resolved_at = None, current_turn = 0,
      max_turns = 50, token_usage = \<lparr>inputTokens = 0, outputTokens = 0, totalTokens = 0\<rparr>,
      pending_approval_col = None, pending_question = None, working_branch = None,
      commits = [], structured_plan = None\<rparr>"

definition demo_world :: world where
  "demo_world =
     \<lparr>tickets = [''T1'' \<mapsto> demo_ticket], agent_states = [], audit_logs = [],
      auditService = True, date_reads = 0,
      wall_clock = (\<lambda>n. ''2024-01-02T00:00:00.00'' @ show_nat (n mod 10) @ ''Z''),
      uuid_reads = 0, uuid_source = (\<lambda>n. ''uuid-'' @ show_nat n), llm_calls = []\<rparr>"

definition demo_step :: "int \<Rightarrow> PlanStepStatus \<Rightarrow> PlanStep" where
  "demo_step k st =
     \<lparr>step_id = ''step-'' @ show_int k, step_index = k, step_title = ''Step'',
      step_description = ''Do it'', step_status = st, startedAt = None, completedAt = None,
      step_output = None, step_error = None, retryCount = 0, maxRetries = 3\<rparr>"

definition demo_plan :: "PlanStepStatus list \<Rightarrow> StructuredPlan" where
  "demo_plan sts =
     \<lparr>version = 1, summary = ''Plan'',
      steps = map (\<lambda>(k, st). demo_step (int k) st) (enumerate 0 sts),
      generatedAt = ''2024-01-01T00:00:00.000Z'', approvedAt = None, approvedBy = None\<rparr>"

definition with_plan :: "StructuredPlan \<Rightarrow> world \<Rightarrow> world" where
  "with_plan p w = db_update ''T1'' (\<lambda>row. row\<lparr>structured_plan := Some p\<rparr>) w"

text \<open>Requests and answers named in the theorems, and example states.\<close>

definition review_request :: "GraphState \<Rightarrow> StructuredPlan \<Rightarrow> llm_request" where
  "review_request s plan =
     \<lparr>with_tools = False,
      request_messages =
        [SystemMessage SYSTEM_PROMPT] @ messages s @ [HumanMessage (reviewPrompt plan)]\<rparr>"

definition content_text :: "AIMessage \<Rightarrow> string" where
  "content_text m = (case content m of None \<Rightarrow> [] | Some c \<Rightarrow> c)"

definition says :: "string \<Rightarrow> ChatOpenAI" where
  "says txt = (\<lambda>_ _. \<lparr>content = Some txt, tool_calls = [], usage = None\<rparr>)"

definition demo_state :: GraphState where
  "demo_state =
     default_state\<lparr>ticketId := ''T1'', ticketTitle := ''Deploy'',
                   ticketDescription := ''Deploy the app''\<rparr>"

text \<open>
  The primary key of \<^verbatim>\<open>agent_states\<close>: no two rows share \<^verbatim>\<open>(ticket_id,
  checkpoint_id)\<close>. \<open>merged\<close> is what \<^verbatim>\<open>onConflict(...).merge(...)\<close> makes of a stored row.
\<close>

definition pk_unique :: "AgentStateRow list \<Rightarrow> bool" where
  "pk_unique rows = distinct (map (\<lambda>r. (ticket_id r, checkpoint_id r)) rows)"

definition same_key :: "string \<Rightarrow> string \<Rightarrow> AgentStateRow \<Rightarrow> bool" where
  "same_key t c r \<longleftrightarrow> ticket_id r = t \<and> checkpoint_id r = c"

definition merged :: "Checkpoint \<Rightarrow> string \<Rightarrow> string \<Rightarrow> AgentStateRow \<Rightarrow> AgentStateRow" where
  "merged ck md now r = r\<lparr>state := ck, metadata := Some md, row_updated_at := Some now\<rparr>"

text \<open>
  A thread whose checkpoint \<^verbatim>\<open>A\<close> has a younger child \<^verbatim>\<open>B\<close>, built by two calls of
  \<open>put\<close> on the empty store.
\<close>

definition thread_T1 :: RunnableConfig where
  "thread_T1 = \<lparr>thread_id = Some ''T1'', config_checkpoint_id = None\<rparr>"

definition snapshot :: "string \<Rightarrow> AgentPhase \<Rightarrow> Checkpoint" where
  "snapshot c ph = \<lparr>ck_id = c, channel_values = demo_state\<lparr>phase := ph\<rparr>\<rparr>"

definition store_A_then_B :: world where
  "store_A_then_B =
     snd (put (thread_T1\<lparr>config_checkpoint_id := Some ''A''\<rparr>) (snapshot ''B'' waiting) ''step 1''
       (snd (put thread_T1 (snapshot ''A'' planning) ''step 0'' demo_world)))"

definition plan_request :: "GraphState \<Rightarrow> llm_request" where
  "plan_request s =
     \<lparr>with_tools = False,
      request_messages = [SystemMessage SYSTEM_PROMPT, HumanMessage (planPrompt s)]\<rparr>"

definition execute_request :: "GraphState \<Rightarrow> StructuredPlan \<Rightarrow> PlanStep \<Rightarrow> llm_request" where
  "execute_request s plan currentStep =
     \<lparr>with_tools = True,
      request_messages =
        [SystemMessage SYSTEM_PROMPT] @ messages s @ execute_new_messages s plan currentStep\<rparr>"

text \<open>A stand-in for \<^verbatim>\<open>JSON.parse\<close> that is right on the texts used below.\<close>

definition demo_JSON_parse :: "string \<Rightarrow> string + json" where
  \<open>demo_JSON_parse txt =
     (if txt = ''{"summary":"s","steps":[]}''
      then Inr (JObject [(''summary'', JString ''s''), (''steps'', JArray [])])
      else if txt = ''{"summary":"s"}''
      then Inr (JObject [(''summary'', JString ''s'')])
      else Inl ''Unexpected token in JSON'')\<close>

text \<open>Whether a tool call names a registered tool.\<close>

definition registered :: "DynamicStructuredTool list \<Rightarrow> ToolCall \<Rightarrow> bool" where
  "registered tools toolCall = (find (\<lambda>t. tool_name t = tc_name toolCall) tools \<noteq> None)"

text \<open>The tool message that is appended for what a tool call came to.\<close>

definition tool_message :: "tool_outcome \<Rightarrow> ToolCall \<Rightarrow> BaseMessage" where
  "tool_message outcome toolCall =
     (case outcome of
        Returned r \<Rightarrow> ToolMessage r (call_id toolCall)
      | Threw e \<Rightarrow> ToolMessage (''Error: '' @ e) (call_id toolCall))"

text \<open>
  \<open>ran_in_order tools calls ws msgs\<close>: the calls, each naming a registered tool, ran one
  after the other between the worlds \<open>ws\<close>: call \<open>i\<close> ran its tool on world \<open>i\<close> and left
  world \<open>i + 1\<close>, and message \<open>i\<close> is the tool message for what it came to.
\<close>

definition ran_in_order ::
  "DynamicStructuredTool list \<Rightarrow> ToolCall list \<Rightarrow> world list \<Rightarrow> BaseMessage list \<Rightarrow> bool" where
  "ran_in_order tools calls ws msgs \<longleftrightarrow>
     length ws = Suc (length calls) \<and> length msgs = length calls \<and>
     (\<forall>i \<in> {..<length calls}.
        case find (\<lambda>t. tool_name t = tc_name (calls ! i)) tools of
          None \<Rightarrow> False
        | Some tool \<Rightarrow>
            msgs ! i = tool_message (fst (invoke tool (tc_args (calls ! i)) (ws ! i))) (calls ! i) \<and>
            ws ! Suc i = snd (invoke tool (tc_args (calls ! i)) (ws ! i)))"

text \<open>
  A tool that draws a fresh identifier and returns it: its result depends on the world
  it runs in, and it changes that world.
\<close>

definition fresh_id_tool :: DynamicStructuredTool where
  "fresh_id_tool =
     \<lparr>tool_name = ''fresh_id'',
      invoke = (\<lambda>args w. case randomUUID w of (u, w1) \<Rightarrow> (Returned u, w1))\<rparr>"

definition fresh_id_call :: "string \<Rightarrow> ToolCall" where
  "fresh_id_call i = \<lparr>tc_name = ''fresh_id'', tc_args = ''{}'', tc_id = Some i\<rparr>"

definition asks_for :: "ToolCall list \<Rightarrow> ChatOpenAI" where
  "asks_for calls = (\<lambda>_ _. \<lparr>content = Some [], tool_calls = calls, usage = None\<rparr>)"

definition exec_state :: GraphState where
  "exec_state = demo_state\<lparr>structuredPlan := Some (demo_plan [step_pending]), phase := executing\<rparr>"

definition ghost_call :: ToolCall where
  "ghost_call = \<lparr>tc_name = ''no_such_tool'', tc_args = ''{}'', tc_id = Some ''call-1''\<rparr>"


definition stored_plan :: "string \<Rightarrow> world \<Rightarrow> StructuredPlan option" where
  "stored_plan i w = (case tickets w i of None \<Rightarrow> None | Some t \<Rightarrow> structured_plan t)"




definition echo_tool :: DynamicStructuredTool where
  "echo_tool = \<lparr>tool_name = ''echo'', invoke = (\<lambda>args w. (Returned args, w))\<rparr>"

text \<open>A ticket whose plan of one pending step has been approved, and a service for it.\<close>

definition approved_plan :: StructuredPlan where
  "approved_plan =
     (demo_plan [step_pending])
       \<lparr>approvedAt := Some ''2024-01-01T12:00:00.000Z'', approvedBy := Some ''alice''\<rparr>"

definition approved_ticket :: TicketRow where
  "approved_ticket = demo_ticket\<lparr>status := approved, structured_plan := Some approved_plan\<rparr>"

definition demo_service :: "ChatOpenAI \<Rightarrow> AgentService" where
  "demo_service llm =
     \<lparr>config_planApprovalRequired = True,
      graph = \<lparr>graph_JSON_parse = demo_JSON_parse, graph_llm = llm, graph_tools = [echo_tool],
               graph_ticketService = True, graph_checkpointer = True\<rparr>,
      getWorktree_resolves = (\<lambda>_. True), createWorktree_throws = (\<lambda>_. None)\<rparr>"

text \<open>The human input that grants an approval.\<close>

definition approval_granted :: HumanInput where
  "approval_granted = \<lparr>input_type = approval, approved_flag = Some True, answer_text = None\<rparr>"

definition approved_world :: world where
  "approved_world = demo_world\<lparr>tickets := [''T1'' \<mapsto> approved_ticket]\<rparr>"

text \<open>
  The budget counters of a ticket, and the conditions under which they are followed
  through a call: the reasoning engine reports token counts that are not negative, the
  stored checkpoints hold token counts that are not negative, and no tool changes a
  ticket's counters or the checkpoint table, or calls the reasoning engine.
\<close>

definition usage_nonneg :: "TokenUsage \<Rightarrow> bool" where
  "usage_nonneg u \<longleftrightarrow> 0 \<le> inputTokens u \<and> 0 \<le> outputTokens u \<and> 0 \<le> totalTokens u"

definition usage_le :: "TokenUsage \<Rightarrow> TokenUsage \<Rightarrow> bool" where
  "usage_le a b \<longleftrightarrow>
     inputTokens a \<le> inputTokens b \<and> outputTokens a \<le> outputTokens b \<and>
     totalTokens a \<le> totalTokens b"

definition usage_add :: "TokenUsage \<Rightarrow> TokenUsage \<Rightarrow> TokenUsage" where
  "usage_add a b =
     \<lparr>inputTokens = inputTokens a + inputTokens b,
      outputTokens = outputTokens a + outputTokens b,
      totalTokens = totalTokens a + totalTokens b\<rparr>"

definition counters :: "string \<Rightarrow> world \<Rightarrow> (int \<times> TokenUsage) option" where
  "counters i w = map_option (\<lambda>t. (current_turn t, token_usage t)) (tickets w i)"

definition llm_reports_nonneg :: "ChatOpenAI \<Rightarrow> bool" where
  "llm_reports_nonneg llm \<longleftrightarrow> (\<forall>hist req. usage_nonneg (extractTokenUsage (llm hist req)))"

definition checkpoints_nonneg :: "world \<Rightarrow> bool" where
  "checkpoints_nonneg w \<longleftrightarrow>
     (\<forall>row \<in> set (agent_states w). usage_nonneg (tokenUsage (channel_values (state row))))"

definition tools_keep_counters :: "DynamicStructuredTool list \<Rightarrow> bool" where
  "tools_keep_counters tools \<longleftrightarrow>
     (\<forall>tool \<in> set tools. \<forall>args w.
        (\<forall>i. counters i (snd (invoke tool args w)) = counters i w) \<and>
        agent_states (snd (invoke tool args w)) = agent_states w \<and>
        llm_calls (snd (invoke tool args w)) = llm_calls w)"

text \<open>
  What a call of the agent service adds to a ticket's token counts is made of two parts:
  \<open>thread_usage\<close>, the token counts held by the latest checkpoint of the thread when the
  call starts (none for a thread without a checkpoint), and \<open>reported\<close>, the sum of the
  token counts the reasoning engine reports for the requests made during the call.
\<close>

definition no_usage :: TokenUsage where
  "no_usage = \<lparr>inputTokens = 0, outputTokens = 0, totalTokens = 0\<rparr>"

definition thread_usage :: "CompiledGraph \<Rightarrow> string \<Rightarrow> world \<Rightarrow> TokenUsage" where
  "thread_usage g thread w =
     (if graph_checkpointer g
      then (case getTuple \<lparr>thread_id = Some thread, config_checkpoint_id = None\<rparr> w of
              None \<Rightarrow> no_usage
            | Some tuple \<Rightarrow> tokenUsage (channel_values (tuple_checkpoint tuple)))
      else no_usage)"

fun reported :: "ChatOpenAI \<Rightarrow> llm_request list \<Rightarrow> llm_request list \<Rightarrow> TokenUsage" where
  "reported llm hist [] = no_usage"
| "reported llm hist (req # reqs) =
     usage_add (extractTokenUsage (llm hist req)) (reported llm (hist @ [req]) reqs)"

text \<open>\<open>frame w w'\<close>: from \<open>w\<close> to \<open>w'\<close> no counter and no checkpoint row has changed.\<close>

definition frame :: "world \<Rightarrow> world \<Rightarrow> bool" where
  "frame w w' \<longleftrightarrow> (\<forall>i. counters i w' = counters i w) \<and> agent_states w' = agent_states w"

text \<open>
  \<open>kept w w'\<close>: no counter has changed, and the checkpoints still hold token counts that
  are not negative if they did.
\<close>

definition kept :: "world \<Rightarrow> world \<Rightarrow> bool" where
  "kept w w' \<longleftrightarrow>
     (\<forall>i. counters i w' = counters i w) \<and> (checkpoints_nonneg w \<longrightarrow> checkpoints_nonneg w')"

text \<open>
  \<open>grown w w'\<close>: every ticket of \<open>w\<close> is still stored in \<open>w'\<close>, with a turn count and
  token counts that are not smaller, and the checkpoints still hold token counts that are
  not negative if they did.
\<close>

definition grown :: "world \<Rightarrow> world \<Rightarrow> bool" where
  "grown w w' \<longleftrightarrow>
     (\<forall>i t. tickets w i = Some t \<longrightarrow>
        (\<exists>t'. tickets w' i = Some t' \<and> current_turn t \<le> current_turn t' \<and>
              usage_le (token_usage t) (token_usage t'))) \<and>
     (checkpoints_nonneg w \<longrightarrow> checkpoints_nonneg w')"

text \<open>A sequence of calls of the agent service on one store.\<close>

datatype agent_call = Run string | Resume string "HumanInput option"

fun perform_call ::
  "AgentService \<Rightarrow> agent_call \<Rightarrow> world \<Rightarrow> (js_error + AgentRunResult) \<times> world" where
  "perform_call svc (Run tid) w = (case run svc tid w of (res, _, w') \<Rightarrow> (res, w'))"
| "perform_call svc (Resume tid given) w =
     (case resume svc tid given w of (res, _, w') \<Rightarrow> (res, w'))"

fun call_ticket :: "agent_call \<Rightarrow> string" where
  "call_ticket (Run tid) = tid"
| "call_ticket (Resume tid given) = tid"

fun perform :: "AgentService \<Rightarrow> agent_call list \<Rightarrow> world \<Rightarrow> world" where
  "perform svc [] w = w"
| "perform svc (c # calls) w = perform svc calls (snd (perform_call svc c w))"

text \<open>
  A reasoning engine that always answers with the same text and reports ten input and
  five output tokens, a store whose ticket is in progress, and a service whose engine
  answers every request with a plan that has no steps.
\<close>

definition metered :: "string \<Rightarrow> ChatOpenAI" where
  "metered txt =
     (\<lambda>_ _. \<lparr>content = Some txt, tool_calls = [],
              usage = Some \<lparr>input_tokens = Some 10, output_tokens = Some 5\<rparr>\<rparr>)"

definition working_world :: world where
  "working_world = demo_world\<lparr>tickets := [''T1'' \<mapsto> demo_ticket\<lparr>status := in_progress\<rparr>]\<rparr>"

definition planning_service :: AgentService where
  \<open>planning_service = demo_service (metered ''{"summary":"s","steps":[]}'')\<close>

section \<open>Facts about the ticket service\<close>

lemma VALID_TRANSITIONS_spec: "set (VALID_TRANSITIONS s) = spec_allowed s"
  by (cases s) auto

lemma ticket_audit_tickets [simp]: "tickets (ticket_audit i ty a w) = tickets w"
  by (simp add: ticket_audit_def AuditService_log_def Date_now_def randomUUID_def
      split: prod.splits)

lemma length_map_steps [simp]: "length (map_steps k u ss) = length ss"
  by (simp add: map_steps_def)

lemma nth_map_steps:
  "j < length ss \<Longrightarrow> map_steps k u ss ! j = (if int j = k then spread (ss ! j) u else ss ! j)"
  by (simp add: map_steps_def nth_enumerate_eq)

lemma map_steps_out_of_range:
  "k < 0 \<or> int (length ss) \<le> k \<Longrightarrow> map_steps k u ss = ss"
  by (rule nth_equalityI) (auto simp: nth_map_steps)

lemma demo_world_ticket: "tickets demo_world ''T1'' = Some demo_ticket"
  by (simp add: demo_world_def)

lemma with_plan_ticket:
  "tickets (with_plan p demo_world) ''T1'' = Some (demo_ticket\<lparr>structured_plan := Some p\<rparr>)"
  by (simp add: with_plan_def db_update_def demo_world_def)

section \<open>C2: status transitions follow the table\<close>

text \<open>
  C2. For a stored ticket, \<open>transitionStatus\<close> succeeds exactly when the target is in the
  specification's table for the current status. On a target outside the table it throws
  \<open>InvalidStatusTransitionError\<close> carrying the old and the requested status and leaves the
  whole store, so status and \<open>resolved_at\<close>, as it was. On success the stored status is the
  target, and \<open>resolved_at\<close> is stamped with the clock exactly when the target is completed,
  failed or cancelled; for any other target it keeps its value.
\<close>

theorem transitionStatus_table:
  assumes "tickets w i = Some t"
  shows "(target \<in> spec_allowed (status t) \<longrightarrow>
            (\<exists>t' w'. transitionStatus i target w = (Inr t', w') \<and> tickets w' i = Some t' \<and>
               status t' = target \<and>
               resolved_at t' =
                 (if target = completed \<or> target = failed \<or> target = cancelled
                  then Some (wall_clock w (Suc (date_reads w))) else resolved_at t)))
         \<and> (target \<notin> spec_allowed (status t) \<longrightarrow>
            transitionStatus i target w =
              (Inl (InvalidStatusTransitionError (status t) target), w))"
  using assms
  by (auto simp: transitionStatus_def get_def get_after_def VALID_TRANSITIONS_spec Date_now_def
      db_update_def Let_def split: prod.splits option.splits)

theorem transitionStatus_table_witness:
  "tickets demo_world ''T1'' = Some demo_ticket
   \<and> transitionStatus ''T1'' completed demo_world =
       (Inl (InvalidStatusTransitionError draft completed), demo_world)
   \<and> (\<exists>t' w'. transitionStatus ''T1'' cancelled demo_world = (Inr t', w') \<and>
         tickets w' ''T1'' = Some t' \<and> status t' = cancelled \<and>
         resolved_at t' = Some ''2024-01-02T00:00:00.001Z'')"
proof -
  have h: "tickets demo_world ''T1'' = Some demo_ticket"
    by (simp add: demo_world_def)
  have s: "status demo_ticket = draft"
    by (simp add: demo_ticket_def)
  have c: "wall_clock demo_world (Suc (date_reads demo_world)) = ''2024-01-02T00:00:00.001Z''"
    by (simp add: demo_world_def show_nat.simps)
  show ?thesis
    using h transitionStatus_table [OF h, of completed] transitionStatus_table [OF h, of cancelled]
    by (simp add: s c)
qed

section \<open>C10: updating a step that does not exist\<close>

text \<open>
  C10. For a stored ticket that has a plan and a step index below zero or at least the
  number of steps, \<open>updatePlanStep\<close> returns normally and the stored plan is the plan it
  was: no step changes and none is added.
\<close>

theorem updatePlanStep_out_of_range:
  assumes "tickets w i = Some t" and "structured_plan t = Some plan"
    and "stepIndex < 0 \<or> int (length (steps plan)) \<le> stepIndex"
  shows "\<exists>t' w'. updatePlanStep i stepIndex u w = (Inr t', w') \<and> tickets w' i = Some t' \<and>
           structured_plan t' = Some plan"
  using assms
  by (simp add: updatePlanStep_def get_def get_after_def Date_now_def db_update_def
      map_steps_out_of_range split: prod.splits)

theorem updatePlanStep_out_of_range_witness:
  "tickets (with_plan (demo_plan [step_pending, step_pending]) demo_world) ''T1'' =
     Some (demo_ticket\<lparr>structured_plan := Some (demo_plan [step_pending, step_pending])\<rparr>)
   \<and> ((2::int) < 0 \<or> int (length (steps (demo_plan [step_pending, step_pending]))) \<le> 2)
   \<and> (\<exists>t' w'. updatePlanStep ''T1'' 2 (no_update\<lparr>set_status := Some step_in_progress\<rparr>)
          (with_plan (demo_plan [step_pending, step_pending]) demo_world) = (Inr t', w') \<and>
        structured_plan t' = Some (demo_plan [step_pending, step_pending]))"
proof -
  let ?p = "demo_plan [step_pending, step_pending]"
  have h: "tickets (with_plan ?p demo_world) ''T1'' =
             Some (demo_ticket\<lparr>structured_plan := Some ?p\<rparr>)"
    by (rule with_plan_ticket)
  have r: "(2::int) < 0 \<or> int (length (steps ?p)) \<le> 2"
    by (simp add: demo_plan_def)
  have p: "structured_plan (demo_ticket\<lparr>structured_plan := Some ?p\<rparr>) = Some ?p"
    by simp
  show ?thesis
    using h r updatePlanStep_out_of_range
      [OF h p r, of "no_update\<lparr>set_status := Some step_in_progress\<rparr>"]
    by blast
qed

section \<open>Facts about the graph state and the wait node\<close>

lemma apply_no_change [simp]: "apply_update s no_change = s"
  by (simp add: apply_update_def no_change_def)

lemma apply_update_sel:
  "phase (apply_update s u) = (case upd_phase u of None \<Rightarrow> phase s | Some v \<Rightarrow> v)"
  "waitingFor (apply_update s u) = (case upd_waitingFor u of None \<Rightarrow> waitingFor s | Some v \<Rightarrow> v)"
  "humanInput (apply_update s u) = (case upd_humanInput u of None \<Rightarrow> humanInput s | Some v \<Rightarrow> v)"
  "error (apply_update s u) = (case upd_error u of None \<Rightarrow> error s | Some v \<Rightarrow> v)"
  "messages (apply_update s u) = (case upd_messages u of None \<Rightarrow> messages s | Some v \<Rightarrow> messages s @ v)"
  "structuredPlan (apply_update s u) = (case upd_structuredPlan u of None \<Rightarrow> structuredPlan s | Some v \<Rightarrow> v)"
  "currentStepIndex (apply_update s u) = (case upd_currentStepIndex u of None \<Rightarrow> currentStepIndex s | Some v \<Rightarrow> v)"
  by (simp_all add: apply_update_def)

lemma wait_approved:
  "humanInput s = Some \<lparr>input_type = approval, approved_flag = Some True, answer_text = a\<rparr> \<Longrightarrow>
   createWaitNode s w =
     (Inr (no_change\<lparr>upd_phase := Some executing, upd_waitingFor := Some None,
                     upd_humanInput := Some None,
                     upd_messages := Some [HumanMessage ''Plan approved. Proceeding with execution.'']\<rparr>), w)"
  by (simp add: createWaitNode_def)

lemma wait_denied:
  "humanInput s = Some \<lparr>input_type = approval, approved_flag = Some False, answer_text = a\<rparr> \<Longrightarrow>
   createWaitNode s w =
     (Inr (no_change\<lparr>upd_phase := Some phase_completed, upd_waitingFor := Some None,
                     upd_humanInput := Some None,
                     upd_error := Some (Some ''Plan was rejected by user'')\<rparr>), w)"
  by (simp add: createWaitNode_def)

lemma wait_answer:
  "humanInput s = Some \<lparr>input_type = answer, approved_flag = b, answer_text = Some a\<rparr> \<Longrightarrow>
   createWaitNode s w =
     (Inr (no_change\<lparr>upd_phase := Some executing, upd_waitingFor := Some None,
                     upd_humanInput := Some None,
                     upd_messages := Some [HumanMessage (''User response: '' @ a)]\<rparr>), w)"
  by (simp add: createWaitNode_def)

lemma wait_absent: "humanInput s = None \<Longrightarrow> createWaitNode s w = (Inr no_change, w)"
  by (simp add: createWaitNode_def)

lemma wait_total: "\<exists>u. createWaitNode s w = (Inr u, w)"
  by (simp add: createWaitNode_def split: option.splits input_kind.splits)

lemma rejected_text: "str_includes ''Plan was rejected by user'' ''rejected''"
  by simp

section \<open>C1: the wait node\<close>

text \<open>
  C1. For a state in phase waiting, the wait node returns an update and leaves the world
  as it is, so it sends nothing to the reasoning engine. With an approval that is granted
  the new phase is executing and \<open>waitingFor\<close> is cleared; with an approval that is denied
  the new phase is completed and the error text contains ``rejected''; with an answer the
  new phase is executing, \<open>waitingFor\<close> is cleared and the answer is appended to the
  messages. Without human input the state is unchanged, still waiting, and the edge after
  the wait node leads to the end of the graph, not back to the wait node. Hence the wait
  node yields executing or completed only when human input is present.
\<close>

theorem wait_node_cases:
  assumes "phase s = waiting"
  shows "\<exists>u. createWaitNode s w = (Inr u, w)
           \<and> (\<forall>a. humanInput s = Some \<lparr>input_type = approval, approved_flag = Some True, answer_text = a\<rparr> \<longrightarrow>
                 phase (apply_update s u) = executing \<and> waitingFor (apply_update s u) = None)
           \<and> (\<forall>a. humanInput s = Some \<lparr>input_type = approval, approved_flag = Some False, answer_text = a\<rparr> \<longrightarrow>
                 phase (apply_update s u) = phase_completed \<and>
                 (\<exists>e. error (apply_update s u) = Some e \<and> str_includes e ''rejected''))
           \<and> (\<forall>b a. humanInput s = Some \<lparr>input_type = answer, approved_flag = b, answer_text = Some a\<rparr> \<longrightarrow>
                 phase (apply_update s u) = executing \<and> waitingFor (apply_update s u) = None \<and>
                 messages (apply_update s u) = messages s @ [HumanMessage (''User response: '' @ a)])
           \<and> (humanInput s = None \<longrightarrow>
                 apply_update s u = s \<and> phase (apply_update s u) = waiting \<and>
                 next_node (Some wait_node) (apply_update s u) = Some END)"
proof -
  obtain u where u: "createWaitNode s w = (Inr u, w)"
    using wait_total by blast
  have 1: "phase (apply_update s u) = executing \<and> waitingFor (apply_update s u) = None"
    if "humanInput s = Some \<lparr>input_type = approval, approved_flag = Some True, answer_text = a\<rparr>" for a
    using wait_approved [OF that, of w] u by (simp add: apply_update_sel no_change_def)
  have 2: "phase (apply_update s u) = phase_completed \<and>
           (\<exists>e. error (apply_update s u) = Some e \<and> str_includes e ''rejected'')"
    if "humanInput s = Some \<lparr>input_type = approval, approved_flag = Some False, answer_text = a\<rparr>" for a
    using wait_denied [OF that, of w] u rejected_text by (simp add: apply_update_sel no_change_def)
  have 3: "phase (apply_update s u) = executing \<and> waitingFor (apply_update s u) = None \<and>
           messages (apply_update s u) = messages s @ [HumanMessage (''User response: '' @ a)]"
    if "humanInput s = Some \<lparr>input_type = answer, approved_flag = b, answer_text = Some a\<rparr>" for a b
    using wait_answer [OF that, of w] u by (simp add: apply_update_sel no_change_def)
  have 4: "apply_update s u = s \<and> phase (apply_update s u) = waiting \<and>
           next_node (Some wait_node) (apply_update s u) = Some END"
    if "humanInput s = None"
    using wait_absent [OF that, of w] u assms by (simp add: next_node_def routeAfterWait_def)
  show ?thesis
  proof (rule exI [of _ u], intro conjI)
    show "createWaitNode s w = (Inr u, w)" by (rule u)
  qed (use 1 2 3 4 in blast)+
qed


theorem wait_node_cases_witness:
  "phase (demo_state\<lparr>phase := waiting, waitingFor := Some approval,
            humanInput := Some \<lparr>input_type = approval, approved_flag = Some True,
                                 answer_text = None\<rparr>\<rparr>) = waiting
   \<and> (\<exists>u. createWaitNode
              (demo_state\<lparr>phase := waiting, waitingFor := Some approval,
                 humanInput := Some \<lparr>input_type = approval, approved_flag = Some True,
                                      answer_text = None\<rparr>\<rparr>) demo_world = (Inr u, demo_world)
          \<and> phase (apply_update
                (demo_state\<lparr>phase := waiting, waitingFor := Some approval,
                   humanInput := Some \<lparr>input_type = approval, approved_flag = Some True,
                                        answer_text = None\<rparr>\<rparr>) u) = executing)"
proof -
  let ?s = "demo_state\<lparr>phase := waiting, waitingFor := Some approval,
              humanInput := Some \<lparr>input_type = approval, approved_flag = Some True,
                                   answer_text = None\<rparr>\<rparr>"
  have h: "phase ?s = waiting"
    by simp
  have i: "humanInput ?s = Some \<lparr>input_type = approval, approved_flag = Some True,
                                 answer_text = None\<rparr>"
    by simp
  show ?thesis
    using h i wait_node_cases [OF h, of demo_world]
    by blast
qed

section \<open>C7: the review node\<close>

text \<open>
  C7. With a plan in the state: while the current step index is below the number of
  steps, the review node returns phase executing and leaves the world, and with it the
  log of requests to the reasoning engine, unchanged. Otherwise it sends exactly one
  request, and the new phase is completed exactly when the answer's text contains
  \<^verbatim>\<open>TASK_COMPLETE\<close> and executing exactly when it does not.
\<close>

theorem review_node_cases:
  assumes "structuredPlan s = Some plan"
  shows "(currentStepIndex s < int (length (steps plan)) \<longrightarrow>
            (\<exists>u. createReviewNode llm s w = (Inr u, w) \<and> phase (apply_update s u) = executing))
       \<and> (\<not> currentStepIndex s < int (length (steps plan)) \<longrightarrow>
            (\<exists>u w'. createReviewNode llm s w = (Inr u, w') \<and>
               llm_calls w' = llm_calls w @ [review_request s plan] \<and>
               (phase (apply_update s u) = phase_completed \<longleftrightarrow>
                  str_includes (content_text (llm (llm_calls w) (review_request s plan))) ''TASK_COMPLETE'') \<and>
               (phase (apply_update s u) = executing \<longleftrightarrow>
                  \<not> str_includes (content_text (llm (llm_calls w) (review_request s plan))) ''TASK_COMPLETE'')))"
  using assms
  by (simp add: createReviewNode_def llm_invoke_def review_request_def content_text_def Let_def
      apply_update_sel no_change_def split: prod.splits)


theorem review_node_cases_witness:
  "structuredPlan (demo_state\<lparr>structuredPlan := Some (demo_plan [step_completed]),
                              currentStepIndex := 1\<rparr>) = Some (demo_plan [step_completed])
   \<and> (\<exists>u w'. createReviewNode (says ''All good. TASK_COMPLETE'')
                 (demo_state\<lparr>structuredPlan := Some (demo_plan [step_completed]),
                              currentStepIndex := 1\<rparr>) demo_world = (Inr u, w') \<and>
         phase (apply_update
                 (demo_state\<lparr>structuredPlan := Some (demo_plan [step_completed]),
                              currentStepIndex := 1\<rparr>) u) = phase_completed)"
proof -
  let ?s = "demo_state\<lparr>structuredPlan := Some (demo_plan [step_completed]), currentStepIndex := 1\<rparr>"
  have h: "structuredPlan ?s = Some (demo_plan [step_completed])"
    by simp
  have n: "\<not> currentStepIndex ?s < int (length (steps (demo_plan [step_completed])))"
    by (simp add: demo_plan_def)
  have c: "str_includes (content_text (says ''All good. TASK_COMPLETE'' (llm_calls demo_world)
             (review_request ?s (demo_plan [step_completed])))) ''TASK_COMPLETE''"
    by (simp add: says_def content_text_def)
  show ?thesis
    using h n c review_node_cases [OF h, of "says ''All good. TASK_COMPLETE''" demo_world]
    by blast
qed

section \<open>C5: a planning answer that does not parse\<close>

text \<open>
  When the answer holds no opening brace followed by a closing one, the planning node
  makes its single request and returns phase completed with the error text of the source.
\<close>

lemma planning_no_json_found:
  assumes "match_braces (content_text (llm (llm_calls w) (plan_request s))) = None"
  shows "\<exists>u w'. createPlanNode JSON_parse llm ticketService s w = (Inr u, w') \<and>
           llm_calls w' = llm_calls w @ [plan_request s] \<and>
           phase (apply_update s u) = phase_completed \<and>
           error (apply_update s u) =
             Some ''Failed to parse plan: No valid JSON found in response''"
  using assms
  by (simp add: createPlanNode_def llm_invoke_def plan_request_def content_text_def Let_def
      apply_update_sel no_change_def split: prod.splits)

text \<open>
  C5 fails on the code where the answer does hold braces: the text between the first
  opening and the last closing brace goes to \<^verbatim>\<open>JSON.parse\<close> unguarded, and when that
  throws, the planning node throws the \<^verbatim>\<open>SyntaxError\<close> instead of returning phase
  completed with an error.
\<close>

theorem planning_throws_on_invalid_json:
  assumes "match_braces (content_text (llm (llm_calls w) (plan_request s))) = Some m"
    and "JSON_parse m = Inl msg"
  shows "\<exists>w'. createPlanNode JSON_parse llm ticketService s w = (Inl (SyntaxError msg), w')"
  using assms
  by (simp add: createPlanNode_def llm_invoke_def plan_request_def content_text_def Let_def
      split: prod.splits)

lemma planning_throws_on_missing_steps:
  assumes "match_braces (content_text (llm (llm_calls w) (plan_request s))) = Some m"
    and "JSON_parse m = Inr (JObject props)" and "map_of props ''steps'' = None"
  shows "\<exists>e w'. createPlanNode JSON_parse llm ticketService s w = (Inl (TypeError e), w')"
  using assms
  by (simp add: createPlanNode_def llm_invoke_def plan_request_def content_text_def Let_def
      property_def Date_now_def split: prod.splits)

lemma match_braces_demo: "match_braces ''{not json}'' = Some ''{not json}''"
  by (simp add: match_braces_def)

theorem planning_throws_on_invalid_json_witness:
  "match_braces (content_text (says ''{not json}'' (llm_calls demo_world) (plan_request demo_state)))
     = Some ''{not json}''
   \<and> demo_JSON_parse ''{not json}'' = Inl ''Unexpected token in JSON''
   \<and> (\<exists>w'. createPlanNode demo_JSON_parse (says ''{not json}'') True demo_state demo_world =
          (Inl (SyntaxError ''Unexpected token in JSON''), w'))"
proof -
  have m: "match_braces (content_text (says ''{not json}'' (llm_calls demo_world)
             (plan_request demo_state))) = Some ''{not json}''"
    by (simp add: says_def content_text_def match_braces_demo)
  have p: "demo_JSON_parse ''{not json}'' = Inl ''Unexpected token in JSON''"
    by (simp add: demo_JSON_parse_def)
  show ?thesis
    using m p
      planning_throws_on_invalid_json
        [where llm = "says ''{not json}''" and w = demo_world and s = demo_state
           and JSON_parse = demo_JSON_parse and ticketService = True, OF m p]
    by blast
qed

section \<open>Facts about the execute node\<close>

lemma updatePlanStep_ok:
  assumes "tickets w i = Some t" and "structured_plan t = Some p"
  shows "updatePlanStep i k u w =
           (Inr (t\<lparr>structured_plan := Some (p\<lparr>steps := map_steps k u (steps p)\<rparr>),
                  updated_at := wall_clock w (date_reads w)\<rparr>),
            w\<lparr>date_reads := Suc (date_reads w),
              tickets := (tickets w)(i \<mapsto>
                t\<lparr>structured_plan := Some (p\<lparr>steps := map_steps k u (steps p)\<rparr>),
                  updated_at := wall_clock w (date_reads w)\<rparr>)\<rparr>)"
  using assms
  by (simp add: updatePlanStep_def get_def get_after_def Date_now_def db_update_def Let_def)

lemma mark_in_progress_ok:
  assumes "ticketService \<longrightarrow> (\<exists>t p. tickets w (ticketId s) = Some t \<and> structured_plan t = Some p)"
  shows "\<exists>w'. mark_in_progress ticketService s cur w = (None, w') \<and>
           llm_calls w' = llm_calls w \<and>
           (ticketService \<longrightarrow>
              (\<exists>t p. tickets w' (ticketId s) = Some t \<and> structured_plan t = Some p))"
proof (cases "ticketService \<and> step_status cur = step_pending")
  case True
  with assms obtain t p where tp: "tickets w (ticketId s) = Some t" "structured_plan t = Some p"
    by blast
  let ?w0 = "w\<lparr>date_reads := Suc (date_reads w)\<rparr>"
  have "tickets ?w0 (ticketId s) = Some t" using tp by simp
  from updatePlanStep_ok [OF this tp(2)] True show ?thesis
    by (simp add: mark_in_progress_def Date_now_def)
next
  case False
  with assms show ?thesis
    by (auto simp: mark_in_progress_def)
qed

lemma mark_completed_ok:
  assumes "ticketService \<longrightarrow> (\<exists>t p. tickets w (ticketId s) = Some t \<and> structured_plan t = Some p)"
  shows "\<exists>w'. mark_completed ticketService s out w = (None, w') \<and>
           llm_calls w' = llm_calls w \<and>
           (ticketService \<longrightarrow>
              (\<exists>t p. tickets w' (ticketId s) = Some t \<and> structured_plan t = Some p \<and>
                 (\<forall>st. at_index (steps p) (currentStepIndex s) = Some st \<longrightarrow>
                    step_status st = step_completed \<and> step_output st = Some out \<and>
                    completedAt st \<noteq> None)))"
proof (cases ticketService)
  case True
  with assms obtain t p where tp: "tickets w (ticketId s) = Some t" "structured_plan t = Some p"
    by blast
  let ?w0 = "w\<lparr>date_reads := Suc (date_reads w)\<rparr>"
  have "tickets ?w0 (ticketId s) = Some t" using tp by simp
  from updatePlanStep_ok [OF this tp(2)] True show ?thesis
    by (auto simp: mark_completed_def Date_now_def at_index_def nth_map_steps spread_def
        no_update_def split: if_splits)
next
  case False
  then show ?thesis
    by (simp add: mark_completed_def)
qed

lemma exec_state_facts:
  "structuredPlan exec_state = Some (demo_plan [step_pending])"
  "at_index (steps (demo_plan [step_pending])) (currentStepIndex exec_state) =
     Some (demo_step 0 step_pending)"
  "ticketId exec_state = ''T1''"
  "currentStepIndex exec_state = 0"
  "messages exec_state = []"
  "at_index (steps (demo_plan [step_pending])) 0 = Some (demo_step 0 step_pending)"
  "step_status (demo_step 0 step_pending) = step_pending"
  by (simp_all add: exec_state_def demo_state_def default_state_def demo_plan_def at_index_def
      demo_step_def)

section \<open>C8: at most one step in progress\<close>




lemma stored_plan_updatePlanStep:
  assumes "tickets w i = Some t" and "structured_plan t = Some p"
  shows "fst (updatePlanStep i k u w) \<noteq> Inl e"
    and "stored_plan i (snd (updatePlanStep i k u w)) =
           Some (p\<lparr>steps := map_steps k u (steps p)\<rparr>)"
  using updatePlanStep_ok [OF assms, of k u] by (simp_all add: stored_plan_def)



lemma stored_plan_date [simp]:
  "stored_plan i (w\<lparr>date_reads := n\<rparr>) = stored_plan i w"
  by (simp add: stored_plan_def)

lemma stored_plan_llm [simp]:
  "stored_plan i (w\<lparr>llm_calls := c\<rparr>) = stored_plan i w"
  by (simp add: stored_plan_def)











lemma demo_step_status [simp]: "step_status (demo_step k st) = st"
  by (simp add: demo_step_def)




section \<open>Facts about the checkpoint store\<close>

lemma set_insert_desc [simp]: "set (insert_desc r xs) = insert r (set xs)"
  by (induction xs) auto

lemma set_orderBy [simp]: "set (orderBy_created_at_desc rows) = set rows"
  by (induction rows) (auto simp: orderBy_created_at_desc_def)

lemma sorted_insert_desc:
  "sorted_wrt (\<lambda>a b. row_created_at b \<le> row_created_at a) xs \<Longrightarrow>
   sorted_wrt (\<lambda>a b. row_created_at b \<le> row_created_at a) (insert_desc r xs)"
  by (induction xs) auto

lemma sorted_orderBy:
  "sorted_wrt (\<lambda>a b. row_created_at b \<le> row_created_at a) (orderBy_created_at_desc rows)"
  by (induction rows) (auto simp: orderBy_created_at_desc_def sorted_insert_desc)

lemma first_orderBy_max:
  assumes "first (orderBy_created_at_desc rows) = Some m"
  shows "m \<in> set rows \<and> (\<forall>x \<in> set rows. row_created_at x \<le> row_created_at m)"
proof -
  obtain rest where o: "orderBy_created_at_desc rows = m # rest"
    using assms by (auto simp: first_def split: list.splits)
  have "m \<in> set (orderBy_created_at_desc rows)"
    by (simp add: o del: set_orderBy)
  moreover have "\<forall>x \<in> set rest. row_created_at x \<le> row_created_at m"
    using sorted_orderBy [of rows] by (simp add: o)
  moreover have "set rows = insert m (set rest)"
    using set_orderBy [of rows] by (simp add: o del: set_orderBy)
  ultimately show ?thesis by auto
qed

lemma first_orderBy_newest:
  assumes "r \<in> set rows"
    and "\<forall>x \<in> set rows. x \<noteq> r \<longrightarrow> row_created_at x < row_created_at r"
  shows "first (orderBy_created_at_desc rows) = Some r"
proof (cases "first (orderBy_created_at_desc rows)")
  case None
  then have "orderBy_created_at_desc rows = []"
    by (simp add: first_def split: list.splits)
  then have "set rows = {}"
    using set_orderBy [of rows] by (simp del: set_orderBy)
  with assms(1) show ?thesis by simp
next
  case (Some m)
  from first_orderBy_max [OF Some] assms have "m = r"
    by (metis leD)
  with Some show ?thesis by simp
qed


lemma pk_unique_Cons:
  "pk_unique (x # xs) \<longleftrightarrow>
     (\<forall>y \<in> set xs. \<not> (ticket_id y = ticket_id x \<and> checkpoint_id y = checkpoint_id x)) \<and>
     pk_unique xs"
  by (auto simp: pk_unique_def image_iff)

lemma pk_unique_filter:
  "pk_unique rows \<Longrightarrow> r \<in> set rows \<Longrightarrow> same_key t c r \<Longrightarrow> filter (same_key t c) rows = [r]"
proof (induction rows)
  case Nil
  then show ?case by simp
next
  case (Cons x xs)
  show ?case
  proof (cases "same_key t c x")
    case True
    have "filter (same_key t c) xs = []"
    proof (rule ccontr)
      assume "filter (same_key t c) xs \<noteq> []"
      then obtain y where "y \<in> set xs" "same_key t c y"
        by (metis filter_False)
      with True Cons.prems(1) show False
        by (auto simp: pk_unique_Cons same_key_def)
    qed
    moreover have "r = x"
    proof (rule ccontr)
      assume "r \<noteq> x"
      with Cons.prems(2) have "r \<in> set xs" by simp
      with True Cons.prems(1,3) show False
        by (auto simp: pk_unique_Cons same_key_def)
    qed
    ultimately show ?thesis using True by simp
  next
    case False
    with Cons.prems have "r \<in> set xs" by auto
    moreover from Cons.prems(1) have "pk_unique xs" by (simp add: pk_unique_Cons)
    ultimately show ?thesis using Cons.IH Cons.prems(3) False by simp
  qed
qed

lemma put_without_ticket:
  assumes "thread_id cfg = Some t" and "t \<noteq> []" and "tickets w t = None"
  shows "\<exists>e. fst (put cfg ck md w) = Inl e"
    and "agent_states (snd (put cfg ck md w)) = agent_states w"
  using assms
  by (simp_all add: put_def truthy_def Date_now_def Let_def)

lemma put_without_thread:
  assumes "thread_id cfg = None \<or> thread_id cfg = Some []"
  shows "put cfg ck md w = (Inl (Error ''thread_id is required in config.configurable''), w)"
  using assms
  by (auto simp: put_def truthy_def)

lemma put_unfold:
  assumes "thread_id cfg = Some t" and "t \<noteq> []" and "tickets w t \<noteq> None"
  shows "put cfg ck md w =
           (Inr \<lparr>thread_id = Some t, config_checkpoint_id = Some (ck_id ck)\<rparr>,
            w\<lparr>date_reads := Suc (date_reads w),
              agent_states :=
                (if \<exists>r \<in> set (agent_states w). same_key t (ck_id ck) r
                 then map (\<lambda>r. if same_key t (ck_id ck) r
                                 then merged ck md (wall_clock w (date_reads w)) r else r)
                        (agent_states w)
                 else agent_states w @
                      [\<lparr>ticket_id = t, checkpoint_id = ck_id ck,
                        parent_checkpoint_id = config_checkpoint_id cfg, state = ck,
                        metadata = Some md, pending_writes = None,
                        row_created_at = wall_clock w (date_reads w),
                        row_updated_at = None\<rparr>])\<rparr>)"
  using assms
  by (simp add: put_def truthy_def Date_now_def same_key_def merged_def Let_def)

lemma filter_map_merged:
  "filter (same_key t c) (map (\<lambda>r. if same_key t c r then merged ck md now r else r) rows) =
   map (merged ck md now) (filter (same_key t c) rows)"
  by (induction rows) (auto simp: same_key_def merged_def)

lemma filter_others_map_merged:
  "filter (\<lambda>r. \<not> same_key t c r) (map (\<lambda>r. if same_key t c r then merged ck md now r else r) rows) =
   filter (\<lambda>r. \<not> same_key t c r) rows"
  by (induction rows) (auto simp: same_key_def merged_def)

lemma keys_map_merged:
  "map ((\<lambda>r. (ticket_id r, checkpoint_id r)) \<circ>
        (\<lambda>r. if same_key t c r then merged ck md now r else r)) rows =
   map (\<lambda>r. (ticket_id r, checkpoint_id r)) rows"
  by (simp add: merged_def)

lemma pk_unique_map_merged:
  "pk_unique (map (\<lambda>r. if same_key t c r then merged ck md now r else r) rows) = pk_unique rows"
  by (simp add: pk_unique_def keys_map_merged)

lemma pk_unique_append:
  "pk_unique (rows @ [x]) \<longleftrightarrow>
     (\<forall>y \<in> set rows. \<not> (ticket_id y = ticket_id x \<and> checkpoint_id y = checkpoint_id x)) \<and>
     pk_unique rows"
  by (auto simp: pk_unique_def image_iff)

lemma put_effect:
  assumes pk: "pk_unique (agent_states w)" and thr: "thread_id cfg = Some t" "t \<noteq> []"
    and stored: "tickets w t \<noteq> None"
  shows "\<exists>w' row.
           put cfg ck md w =
             (Inr \<lparr>thread_id = Some t, config_checkpoint_id = Some (ck_id ck)\<rparr>, w') \<and>
           pk_unique (agent_states w') \<and> tickets w' = tickets w \<and>
           filter (same_key t (ck_id ck)) (agent_states w') = [row] \<and>
           state row = ck \<and> metadata row = Some md \<and>
           filter (\<lambda>r. \<not> same_key t (ck_id ck) r) (agent_states w') =
             filter (\<lambda>r. \<not> same_key t (ck_id ck) r) (agent_states w) \<and>
           (\<forall>r0 \<in> set (agent_states w). same_key t (ck_id ck) r0 \<longrightarrow>
              row_created_at row = row_created_at r0 \<and>
              parent_checkpoint_id row = parent_checkpoint_id r0)"
proof (cases "\<exists>r \<in> set (agent_states w). same_key t (ck_id ck) r")
  case True
  then obtain r0 where r0: "r0 \<in> set (agent_states w)" "same_key t (ck_id ck) r0"
    by blast
  have f: "filter (same_key t (ck_id ck)) (agent_states w) = [r0]"
    by (rule pk_unique_filter [OF pk r0])
  have u: "\<And>r. r \<in> set (agent_states w) \<Longrightarrow> same_key t (ck_id ck) r \<Longrightarrow> r = r0"
    using pk_unique_filter [OF pk] f by fastforce
  let ?now = "wall_clock w (date_reads w)"
  let ?rows' = "map (\<lambda>r. if same_key t (ck_id ck) r then merged ck md ?now r else r) (agent_states w)"
  let ?w' = "w\<lparr>date_reads := Suc (date_reads w), agent_states := ?rows'\<rparr>"
  have p: "put cfg ck md w =
             (Inr \<lparr>thread_id = Some t, config_checkpoint_id = Some (ck_id ck)\<rparr>, ?w')"
    using put_unfold [OF thr stored, of ck md] True by simp
  have "pk_unique (agent_states ?w')"
    using pk by (simp add: pk_unique_map_merged)
  moreover have "filter (same_key t (ck_id ck)) (agent_states ?w') = [merged ck md ?now r0]"
    by (simp add: filter_map_merged f)
  moreover have "state (merged ck md ?now r0) = ck \<and> metadata (merged ck md ?now r0) = Some md"
    by (simp add: merged_def)
  moreover have "filter (\<lambda>r. \<not> same_key t (ck_id ck) r) (agent_states ?w') =
                 filter (\<lambda>r. \<not> same_key t (ck_id ck) r) (agent_states w)"
    by (simp add: filter_others_map_merged)
  moreover have "\<forall>r \<in> set (agent_states w). same_key t (ck_id ck) r \<longrightarrow>
                   row_created_at (merged ck md ?now r0) = row_created_at r \<and>
                   parent_checkpoint_id (merged ck md ?now r0) = parent_checkpoint_id r"
    using u by (auto simp: merged_def)
  moreover have "tickets ?w' = tickets w"
    by simp
  ultimately show ?thesis using p by blast
next
  case False
  let ?now = "wall_clock w (date_reads w)"
  let ?new = "\<lparr>ticket_id = t, checkpoint_id = ck_id ck,
               parent_checkpoint_id = config_checkpoint_id cfg, state = ck,
               metadata = Some md, pending_writes = None, row_created_at = ?now,
               row_updated_at = None\<rparr>"
  let ?w' = "w\<lparr>date_reads := Suc (date_reads w), agent_states := agent_states w @ [?new]\<rparr>"
  have p: "put cfg ck md w =
             (Inr \<lparr>thread_id = Some t, config_checkpoint_id = Some (ck_id ck)\<rparr>, ?w')"
    using put_unfold [OF thr stored, of ck md] False by simp
  have n: "filter (same_key t (ck_id ck)) (agent_states w) = []"
    using False by (simp add: filter_empty_conv)
  have "pk_unique (agent_states ?w')"
    using pk False by (auto simp: pk_unique_append same_key_def)
  moreover have "filter (same_key t (ck_id ck)) (agent_states ?w') = [?new]"
    using n by (simp add: same_key_def)
  moreover have "filter (\<lambda>r. \<not> same_key t (ck_id ck) r) (agent_states ?w') =
                 filter (\<lambda>r. \<not> same_key t (ck_id ck) r) (agent_states w)"
    by (simp add: same_key_def)
  moreover have "tickets ?w' = tickets w"
    by simp
  ultimately show ?thesis using p False by force
qed


lemma same_key_eq: "same_key t c = (\<lambda>r. ticket_id r = t \<and> checkpoint_id r = c)"
  by (rule ext) (simp add: same_key_def)

lemma getTuple_by_id:
  assumes "filter (same_key t c) (agent_states w) = [row]" and "t \<noteq> []" and "c \<noteq> []"
  shows "map_option tuple_checkpoint
           (getTuple \<lparr>thread_id = Some t, config_checkpoint_id = Some c\<rparr> w) =
         Some (JSON_roundtrip (state row))"
  using assms
  by (simp add: getTuple_def truthy_def same_key_eq orderBy_created_at_desc_def first_def)

lemma getTuple_latest:
  assumes "row \<in> set (agent_states w)" and "ticket_id row = t" and "t \<noteq> []"
    and "\<forall>x \<in> set (agent_states w). ticket_id x = t \<and> x \<noteq> row \<longrightarrow>
           row_created_at x < row_created_at row"
  shows "map_option tuple_checkpoint
           (getTuple \<lparr>thread_id = Some t, config_checkpoint_id = None\<rparr> w) =
         Some (JSON_roundtrip (state row))"
proof -
  let ?q = "filter (\<lambda>r. ticket_id r = t) (agent_states w)"
  have "first (orderBy_created_at_desc ?q) = Some row"
    using assms by (intro first_orderBy_newest) auto
  then show ?thesis
    using assms(3) by (simp add: getTuple_def truthy_def)
qed

lemma store_A_then_B_rows:
  "agent_states store_A_then_B =
     [\<lparr>ticket_id = ''T1'', checkpoint_id = ''A'', parent_checkpoint_id = None,
       state = snapshot ''A'' planning, metadata = Some ''step 0'', pending_writes = None,
       row_created_at = ''2024-01-02T00:00:00.000Z'', row_updated_at = None\<rparr>,
      \<lparr>ticket_id = ''T1'', checkpoint_id = ''B'', parent_checkpoint_id = Some ''A'',
       state = snapshot ''B'' waiting, metadata = Some ''step 1'', pending_writes = None,
       row_created_at = ''2024-01-02T00:00:00.001Z'', row_updated_at = None\<rparr>]"
  by (simp add: store_A_then_B_def put_def thread_T1_def truthy_def Date_now_def demo_world_def
      snapshot_def Let_def show_nat.simps)

lemma JSON_roundtrip_message_idem [simp]:
  "JSON_roundtrip_message (JSON_roundtrip_message m) = JSON_roundtrip_message m"
  by (cases m) simp_all

lemma JSON_roundtrip_idem [simp]: "JSON_roundtrip (JSON_roundtrip c) = JSON_roundtrip c"
  by (simp add: JSON_roundtrip_def comp_def)

lemma JSON_roundtrip_no_messages:
  "messages (channel_values c) = [] \<Longrightarrow> JSON_roundtrip c = c"
  by (simp add: JSON_roundtrip_def)

lemma JSON_roundtrip_snapshot [simp]: "JSON_roundtrip (snapshot c ph) = snapshot c ph"
  by (simp add: JSON_roundtrip_no_messages snapshot_def demo_state_def default_state_def)

section \<open>C3: writing one checkpoint twice\<close>

text \<open>
  C3, as the code has it. In a store that respects the primary key and holds the ticket
  of the thread, two calls of \<open>put\<close> for the same thread, whose id is not empty, with
  checkpoints of the same id both return normally and leave exactly one row with that
  key; its snapshot and metadata are those of the second call. \<open>getTuple\<close> asked for that
  checkpoint id returns the second snapshot as \<^verbatim>\<open>JSON.parse\<close> gives it back. \<open>getTuple\<close>
  asked for the thread alone returns the row with the latest \<^verbatim>\<open>created_at\<close>, which the
  merge does not touch: it returns the second snapshot when every other checkpoint of the
  thread was created earlier than that row.
\<close>

theorem put_twice_upsert:
  assumes pk: "pk_unique (agent_states w)"
    and thr: "thread_id cfg1 = Some t" "thread_id cfg2 = Some t" "t \<noteq> []"
    and stored: "tickets w t \<noteq> None"
    and ids: "ck_id c1 = cid" "ck_id c2 = cid"
    and p1: "put cfg1 c1 m1 w = (r1, w1)" and p2: "put cfg2 c2 m2 w1 = (r2, w2)"
  shows "r1 = Inr \<lparr>thread_id = Some t, config_checkpoint_id = Some cid\<rparr> \<and>
         r2 = Inr \<lparr>thread_id = Some t, config_checkpoint_id = Some cid\<rparr> \<and>
         (\<exists>row. filter (same_key t cid) (agent_states w2) = [row] \<and>
           state row = c2 \<and> metadata row = Some m2 \<and>
           (cid \<noteq> [] \<longrightarrow>
              map_option tuple_checkpoint
                (getTuple \<lparr>thread_id = Some t, config_checkpoint_id = Some cid\<rparr> w2) =
              Some (JSON_roundtrip c2)) \<and>
           ((\<forall>x \<in> set (agent_states w2). ticket_id x = t \<and> checkpoint_id x \<noteq> cid \<longrightarrow>
                row_created_at x < row_created_at row) \<longrightarrow>
              map_option tuple_checkpoint
                (getTuple \<lparr>thread_id = Some t, config_checkpoint_id = None\<rparr> w2) =
              Some (JSON_roundtrip c2)))"
proof -
  from put_effect [OF pk thr(1,3) stored, of c1 m1] p1 ids
  have pk1: "pk_unique (agent_states w1)" and t1: "tickets w1 = tickets w"
    and r1: "r1 = Inr \<lparr>thread_id = Some t, config_checkpoint_id = Some cid\<rparr>"
    by auto
  have stored1: "tickets w1 t \<noteq> None"
    using stored t1 by simp
  from put_effect [OF pk1 thr(2,3) stored1, of c2 m2] p2 ids
  obtain row where row: "filter (same_key t cid) (agent_states w2) = [row]"
    "state row = c2" "metadata row = Some m2"
    and r2: "r2 = Inr \<lparr>thread_id = Some t, config_checkpoint_id = Some cid\<rparr>"
    by auto
  have "row \<in> set (filter (same_key t cid) (agent_states w2))"
    by (simp add: row(1))
  then have mem: "row \<in> set (agent_states w2)" and key: "same_key t cid row"
    by simp_all
  have byid: "map_option tuple_checkpoint
                (getTuple \<lparr>thread_id = Some t, config_checkpoint_id = Some cid\<rparr> w2) =
              Some (JSON_roundtrip c2)"
    if "cid \<noteq> []"
    using getTuple_by_id [OF row(1) thr(3) that] row(2) by simp
  have latest: "map_option tuple_checkpoint
                  (getTuple \<lparr>thread_id = Some t, config_checkpoint_id = None\<rparr> w2) =
                Some (JSON_roundtrip c2)"
    if older: "\<forall>x \<in> set (agent_states w2). ticket_id x = t \<and> checkpoint_id x \<noteq> cid \<longrightarrow>
                 row_created_at x < row_created_at row"
  proof -
    have "\<forall>x \<in> set (agent_states w2). ticket_id x = t \<and> x \<noteq> row \<longrightarrow>
            row_created_at x < row_created_at row"
    proof (intro ballI impI)
      fix x assume x: "x \<in> set (agent_states w2)" "ticket_id x = t \<and> x \<noteq> row"
      have "checkpoint_id x \<noteq> cid"
      proof
        assume "checkpoint_id x = cid"
        with x have "x \<in> set (filter (same_key t cid) (agent_states w2))"
          by (simp add: same_key_def)
        with row(1) x show False by simp
      qed
      with older x show "row_created_at x < row_created_at row" by blast
    qed
    with getTuple_latest [OF mem _ thr(3)] key row(2) show ?thesis
      by (simp add: same_key_def)
  qed
  show ?thesis
    using r1 r2 row byid latest by blast
qed

lemma put_twice_demo_rows:
  "agent_states
     (snd (put thread_T1 (snapshot ''A'' phase_completed) ''second''
        (snd (put thread_T1 (snapshot ''A'' executing) ''first'' demo_world)))) =
   [\<lparr>ticket_id = ''T1'', checkpoint_id = ''A'', parent_checkpoint_id = None,
     state = snapshot ''A'' phase_completed, metadata = Some ''second'', pending_writes = None,
     row_created_at = ''2024-01-02T00:00:00.000Z'',
     row_updated_at = Some ''2024-01-02T00:00:00.001Z''\<rparr>]"
  by (simp add: put_def thread_T1_def truthy_def Date_now_def demo_world_def snapshot_def Let_def
      show_nat.simps)

theorem put_twice_upsert_witness:
  "pk_unique (agent_states demo_world)
   \<and> tickets demo_world ''T1'' \<noteq> None
   \<and> fst (put thread_T1 (snapshot ''A'' phase_completed) ''second''
            (snd (put thread_T1 (snapshot ''A'' executing) ''first'' demo_world))) =
       Inr \<lparr>thread_id = Some ''T1'', config_checkpoint_id = Some ''A''\<rparr>
   \<and> map_option tuple_checkpoint
       (getTuple (thread_T1\<lparr>config_checkpoint_id := Some ''A''\<rparr>)
          (snd (put thread_T1 (snapshot ''A'' phase_completed) ''second''
             (snd (put thread_T1 (snapshot ''A'' executing) ''first'' demo_world)))))
     = Some (snapshot ''A'' phase_completed)
   \<and> map_option tuple_checkpoint
       (getTuple thread_T1
          (snd (put thread_T1 (snapshot ''A'' phase_completed) ''second''
             (snd (put thread_T1 (snapshot ''A'' executing) ''first'' demo_world)))))
     = Some (snapshot ''A'' phase_completed)"
proof -
  let ?w1 = "snd (put thread_T1 (snapshot ''A'' executing) ''first'' demo_world)"
  let ?w2 = "snd (put thread_T1 (snapshot ''A'' phase_completed) ''second'' ?w1)"
  have pk: "pk_unique (agent_states demo_world)"
    by (simp add: pk_unique_def demo_world_def)
  have stored: "tickets demo_world ''T1'' \<noteq> None"
    by (simp add: demo_world_def)
  have thr: "thread_id thread_T1 = Some ''T1''" "''T1'' \<noteq> []"
    by (simp_all add: thread_T1_def)
  have ids: "ck_id (snapshot ''A'' executing) = ''A''" "ck_id (snapshot ''A'' phase_completed) = ''A''"
    by (simp_all add: snapshot_def)
  have p1: "put thread_T1 (snapshot ''A'' executing) ''first'' demo_world =
              (fst (put thread_T1 (snapshot ''A'' executing) ''first'' demo_world), ?w1)"
    by simp
  have p2: "put thread_T1 (snapshot ''A'' phase_completed) ''second'' ?w1 =
              (fst (put thread_T1 (snapshot ''A'' phase_completed) ''second'' ?w1), ?w2)"
    by simp
  have newest: "\<forall>x \<in> set (agent_states ?w2). ticket_id x = ''T1'' \<and> checkpoint_id x \<noteq> ''A'' \<longrightarrow>
                  row_created_at x < row_created_at r" for r
    by (simp add: put_twice_demo_rows)
  have a: "''A'' \<noteq> []"
    by simp
  from put_twice_upsert [OF pk thr(1) thr(1) thr(2) stored ids p1 p2] newest a
  have "fst (put thread_T1 (snapshot ''A'' phase_completed) ''second'' ?w1) =
          Inr \<lparr>thread_id = Some ''T1'', config_checkpoint_id = Some ''A''\<rparr>
        \<and> map_option tuple_checkpoint
            (getTuple \<lparr>thread_id = Some ''T1'', config_checkpoint_id = Some ''A''\<rparr> ?w2)
          = Some (JSON_roundtrip (snapshot ''A'' phase_completed))
        \<and> map_option tuple_checkpoint
            (getTuple \<lparr>thread_id = Some ''T1'', config_checkpoint_id = None\<rparr> ?w2)
          = Some (JSON_roundtrip (snapshot ''A'' phase_completed))"
    by blast
  then show ?thesis
    using pk stored by (simp add: thread_T1_def)
qed

text \<open>
  C3 as stated fails: checkpoint \<^verbatim>\<open>A\<close> has a child \<^verbatim>\<open>B\<close> created after it; \<^verbatim>\<open>A\<close> is
  written twice more; the latest checkpoint of the thread is still \<^verbatim>\<open>B\<close>, not the
  second snapshot of \<^verbatim>\<open>A\<close>.
\<close>

theorem getLatest_after_put_twice_counterexample:
  "map_option tuple_checkpoint
     (getTuple thread_T1
        (snd (put thread_T1 (snapshot ''A'' phase_completed) ''second''
           (snd (put thread_T1 (snapshot ''A'' executing) ''first'' store_A_then_B)))))
   \<noteq> Some (snapshot ''A'' phase_completed)"
  by (simp add: put_def thread_T1_def truthy_def Date_now_def store_A_then_B_rows getTuple_def
      orderBy_created_at_desc_def first_def snapshot_def Let_def JSON_roundtrip_def
      demo_state_def default_state_def demo_world_def)

section \<open>C4: running a ticket whose plan is approved\<close>

lemma next_after_execute:
  "next_node (Some execute_node) s \<in> {Some wait_node, Some review_node, Some execute_node}"
  by (simp add: next_node_def routeAfterExecute_def)

lemma next_after_wait:
  "next_node (Some wait_node) s \<in> {Some END, Some execute_node}"
  by (simp add: next_node_def routeAfterWait_def)

lemma next_after_review:
  "phase s \<noteq> planning \<Longrightarrow> next_node (Some review_node) s \<in> {Some END, Some execute_node}"
  by (simp add: next_node_def routeAfterReview_def)

lemma review_never_planning:
  "createReviewNode llm s w = (Inr u, w') \<Longrightarrow> phase (apply_update s u) \<noteq> planning"
  by (auto simp: createReviewNode_def llm_invoke_def Let_def apply_update_sel no_change_def
      split: option.splits if_splits prod.splits)

lemma next_never_planning:
  assumes "nd \<noteq> planning_node" and "run_node g nd s w = (Inr u, w')"
    and "next_node (Some nd) (apply_update s u) = Some nd'"
  shows "nd' \<noteq> planning_node"
proof (cases nd)
  case planning_node
  with assms(1) show ?thesis by simp
next
  case execute_node
  with assms(3) next_after_execute [of "apply_update s u"] show ?thesis by auto
next
  case review_node
  with assms(2) have "phase (apply_update s u) \<noteq> planning"
    by (simp add: run_node_def review_never_planning)
  with review_node assms(3) next_after_review [of "apply_update s u"] show ?thesis by auto
next
  case wait_node
  with assms(3) next_after_wait [of "apply_update s u"] show ?thesis by auto
next
  case END
  with assms(3) show ?thesis by (simp add: next_node_def)
qed

lemma drive_unfold:
  "nd \<noteq> END \<Longrightarrow>
   drive g thread (Suc n) nd parent s w =
     (case run_node g nd s w of
        (Inl e, w1) \<Rightarrow> (Inl e, [(nd, s)], w1)
      | (Inr u, w1) \<Rightarrow>
          let s1 = apply_update s u
          in (case save_checkpoint g thread parent s1 w1 of
                (Inl e, w2) \<Rightarrow> (Inl e, [(nd, s)], w2)
              | (Inr saved, w2) \<Rightarrow>
                  (case next_node (Some nd) s1 of
                     None \<Rightarrow> (Inl (Error ''Branch condition returned unknown destination''),
                               [(nd, s)], w2)
                   | Some nd' \<Rightarrow>
                       let (r, visited, w3) = drive g thread n nd' saved s1 w2
                       in (r, (nd, s) # visited, w3))))"
  by (cases nd; hypsubst; simp)

lemma drive_never_planning:
  "nd \<noteq> planning_node \<Longrightarrow>
   planning_node \<notin> fst ` set (fst (snd (drive g thread n nd parent s w)))"
proof (induction n arbitrary: nd parent s w)
  case 0
  then show ?case by (cases nd) simp_all
next
  case (Suc n)
  show ?case
  proof (cases "nd = END")
    case True
    then show ?thesis by simp
  next
    case False
    note unfold = drive_unfold [OF False, of g thread n parent s w]
    show ?thesis
    proof (cases "run_node g nd s w")
      case (Pair r w1)
      show ?thesis
      proof (cases r)
        case (Inl e)
        then show ?thesis using Pair Suc.prems by (simp add: unfold Let_def)
      next
        case (Inr u)
        show ?thesis
        proof (cases "save_checkpoint g thread parent (apply_update s u) w1")
          case saved: (Pair r2 w2)
          show ?thesis
          proof (cases r2)
            case (Inl e)
            then show ?thesis using Pair Inr saved Suc.prems by (simp add: unfold Let_def)
          next
            case (Inr cid)
            show ?thesis
            proof (cases "next_node (Some nd) (apply_update s u)")
              case None
              then show ?thesis
                using Pair \<open>r = Inr u\<close> saved Inr Suc.prems by (simp add: unfold Let_def)
            next
              case (Some nd')
              have "nd' \<noteq> planning_node"
                using next_never_planning [OF Suc.prems _ Some] Pair \<open>r = Inr u\<close> by simp
              from Suc.IH [OF this, of cid "apply_update s u" w2] show ?thesis
                using Pair \<open>r = Inr u\<close> saved Inr Some Suc.prems
                by (simp add: unfold split_beta Let_def)
            qed
          qed
        qed
      qed
    qed
  qed
qed

lemma drive_head:
  "nd \<noteq> END \<Longrightarrow>
   \<exists>rest. fst (snd (drive g thread (Suc n) nd parent s w)) = (nd, s) # rest"
  by (simp add: drive_unfold Let_def split_beta split: prod.splits sum.splits option.splits)

lemma drive_step:
  assumes "nd \<noteq> END" and "run_node g nd s w = (Inr u, w1)"
    and "save_checkpoint g thread parent (apply_update s u) w1 = (Inr c, w2)"
    and "next_node (Some nd) (apply_update s u) = Some nd'"
  shows "drive g thread (Suc n) nd parent s w =
           (fst (drive g thread n nd' c (apply_update s u) w2),
            (nd, s) # fst (snd (drive g thread n nd' c (apply_update s u) w2)),
            snd (snd (drive g thread n nd' c (apply_update s u) w2)))"
  using assms by (simp add: drive_unfold Let_def split_beta)

lemma save_checkpoint_ok:
  assumes "graph_checkpointer g \<longrightarrow> thread \<noteq> [] \<and> tickets w thread \<noteq> None"
  shows "\<exists>c w'. save_checkpoint g thread parent s w = (Inr c, w') \<and> tickets w' = tickets w"
  using assms
  by (auto simp: save_checkpoint_def put_def randomUUID_def Date_now_def truthy_def Let_def)

lemma agent_audit_tickets [simp]: "tickets (agent_audit i ty a w) = tickets w"
  by (simp add: agent_audit_def AuditService_log_def Date_now_def randomUUID_def)

lemma transitionStatus_ok:
  assumes "tickets w i = Some t" and "st \<in> set (VALID_TRANSITIONS (status t))"
  shows "\<exists>t' w'. transitionStatus i st w = (Inr t', w') \<and> tickets w' i = Some t'"
  using assms
  by (auto simp: transitionStatus_def get_def get_after_def Date_now_def db_update_def Let_def)

lemma run_prepare_ok:
  assumes stored: "tickets w tid = Some ticket"
    and turns: "current_turn ticket < max_turns ticket"
    and tree: "getWorktree_resolves svc tid \<or> createWorktree_throws svc tid = None"
  shows "\<exists>w2. run_prepare svc tid w = (Inr ticket, w2) \<and> tickets w2 tid \<noteq> None"
proof -
  let ?w1 = "agent_audit tid ''agent_started'' (''Agent started for ticket: '' @ title ticket) w"
  have tr: "(if getWorktree_resolves svc tid then None else createWorktree_throws svc tid) = None"
    using tree by auto
  show ?thesis
  proof (cases "status ticket = approved")
    case True
    have "tickets ?w1 tid = Some ticket"
      using stored by simp
    from transitionStatus_ok [OF this, of in_progress] True
    obtain t' w2 where "transitionStatus tid in_progress ?w1 = (Inr t', w2)"
      "tickets w2 tid = Some t'"
      by auto
    then show ?thesis
      using stored turns tr True by (simp add: run_prepare_def get_def Let_def)
  next
    case False
    then show ?thesis
      using stored turns tr by (simp add: run_prepare_def get_def Let_def)
  qed
qed

lemma run_trace:
  assumes "run_prepare svc tid w = (Inr ticket, w2)"
  shows "fst (snd (run svc tid w)) =
           fst (snd (graph_invoke (graph svc) (run_initial_state svc tid ticket) tid w2))"
  using assms by (simp add: run_def split_beta split: sum.splits)

lemma run_initial_state_approved:
  assumes "structured_plan ticket = Some plan" and "approvedAt plan \<noteq> None"
  shows "run_initial_state svc tid ticket =
           no_change
             \<lparr>upd_ticketId := Some tid,
              upd_ticketTitle := Some (title ticket),
              upd_ticketDescription := Some (description ticket),
              upd_planApprovalRequired := Some (config_planApprovalRequired svc),
              upd_structuredPlan := Some (Some plan),
              upd_phase := Some waiting,
              upd_waitingFor := Some (Some approval),
              upd_humanInput := Some (Some approval_granted)\<rparr>"
  using assms by (simp add: run_initial_state_def approval_granted_def)

lemma initial_state_fields:
  assumes "structured_plan ticket = Some plan" and "approvedAt plan \<noteq> None"
  shows "phase (apply_update base (run_initial_state svc tid ticket)) = waiting"
    and "waitingFor (apply_update base (run_initial_state svc tid ticket)) = Some approval"
    and "humanInput (apply_update base (run_initial_state svc tid ticket)) = Some approval_granted"
    and "structuredPlan (apply_update base (run_initial_state svc tid ticket)) = Some plan"
    and "ticketId (apply_update base (run_initial_state svc tid ticket)) = tid"
  by (simp_all add: run_initial_state_approved [OF assms] apply_update_def no_change_def)

text \<open>
  C4. Let a stored ticket have a plan with \<open>approvedAt\<close> set, turns left, a thread id that
  is not empty and a work tree that exists or can be created. Then in \<open>run\<close> the first
  node that runs is the wait node, and the state it is given has phase waiting, waits for
  an approval, carries the granted approval as human input, the ticket's plan and the
  ticket's id; the second node that runs is the execute node, and the state it is given
  has phase executing, the same plan, and neither a pending input nor anything it waits
  for; the planning node is not among the nodes that run in the call. This holds for
  every reasoning engine, every tool set and every earlier state of the thread.
\<close>

theorem approved_plan_run_skips_planning:
  assumes stored: "tickets w tid = Some ticket"
    and plan: "structured_plan ticket = Some plan" and appr: "approvedAt plan \<noteq> None"
    and turns: "current_turn ticket < max_turns ticket"
    and tid: "tid \<noteq> []"
    and tree: "getWorktree_resolves svc tid \<or> createWorktree_throws svc tid = None"
  shows "\<exists>s0 s1 rest.
           fst (snd (run svc tid w)) = (wait_node, s0) # (execute_node, s1) # rest \<and>
           phase s0 = waiting \<and> waitingFor s0 = Some approval \<and>
           humanInput s0 = Some approval_granted \<and> structuredPlan s0 = Some plan \<and>
           ticketId s0 = tid \<and>
           phase s1 = executing \<and> structuredPlan s1 = Some plan \<and>
           humanInput s1 = None \<and> waitingFor s1 = None \<and>
           planning_node \<notin> fst ` set (fst (snd (run svc tid w)))"
proof -
  obtain w2 where p: "run_prepare svc tid w = (Inr ticket, w2)" and st2: "tickets w2 tid \<noteq> None"
    using run_prepare_ok [OF stored turns tree] by blast
  let ?g = "graph svc"
  let ?inp = "run_initial_state svc tid ticket"
  let ?u = "no_change\<lparr>upd_phase := Some executing, upd_waitingFor := Some None,
                       upd_humanInput := Some None,
                       upd_messages := Some [HumanMessage ''Plan approved. Proceeding with execution.'']\<rparr>"
  define latest where "latest =
    (if graph_checkpointer ?g
     then getTuple \<lparr>thread_id = Some tid, config_checkpoint_id = None\<rparr> w2 else None)"
  define b where "b =
    (case latest of None \<Rightarrow> default_state
     | Some tuple \<Rightarrow> channel_values (tuple_checkpoint tuple))"
  define parent where "parent =
    (case latest of None \<Rightarrow> None | Some tuple \<Rightarrow> Some (ck_id (tuple_checkpoint tuple)))"
  define s0 where "s0 = apply_update b ?inp"
  define s1 where "s1 = apply_update s0 ?u"
  note f = initial_state_fields [OF plan appr, of b svc tid, folded s0_def]
  have start: "next_node None s0 = Some wait_node"
    using f by (simp add: next_node_def routeFromStart_def)
  obtain c1 v1 where sv1: "save_checkpoint ?g tid parent s0 w2 = (Inr c1, v1)"
    and t1: "tickets v1 = tickets w2"
    using save_checkpoint_ok [of ?g tid w2 parent s0] tid st2 by blast
  have rl: "recursionLimit = Suc (Suc 23)"
    by (simp add: recursionLimit_def)
  have gi: "graph_invoke ?g ?inp tid w2 = drive ?g tid recursionLimit wait_node c1 s0 v1"
    using sv1 start unfolding s0_def b_def parent_def latest_def
    by (simp add: graph_invoke_def Let_def)
  have wait: "run_node ?g wait_node s0 v1 = (Inr ?u, v1)"
    using f(3) by (simp add: run_node_def approval_granted_def wait_approved)
  obtain c2 v2 where sv2: "save_checkpoint ?g tid c1 (apply_update s0 ?u) v1 = (Inr c2, v2)"
    using save_checkpoint_ok [of ?g tid v1 c1 "apply_update s0 ?u"] tid st2 t1 by auto
  have nxt: "next_node (Some wait_node) (apply_update s0 ?u) = Some execute_node"
    by (simp add: next_node_def routeAfterWait_def apply_update_sel no_change_def)
  let ?d = "drive ?g tid (Suc 23) execute_node c2 s1 v2"
  have step: "drive ?g tid (Suc (Suc 23)) wait_node c1 s0 v1 =
                (fst ?d, (wait_node, s0) # fst (snd ?d), snd (snd ?d))"
    unfolding s1_def by (rule drive_step [OF _ wait sv2 nxt]) simp
  obtain rest where rest: "fst (snd ?d) = (execute_node, s1) # rest"
    using drive_head [of execute_node ?g tid 23 c2 s1 v2] by auto
  have never: "planning_node \<notin> fst ` set (fst (snd ?d))"
    using drive_never_planning [of execute_node ?g tid "Suc 23" c2 s1 v2] by simp
  have "fst (snd (run svc tid w)) = fst (snd (drive ?g tid (Suc (Suc 23)) wait_node c1 s0 v1))"
    by (simp only: run_trace [OF p] gi rl)
  then have trace: "fst (snd (run svc tid w)) = (wait_node, s0) # (execute_node, s1) # rest"
    by (simp only: step rest fst_conv snd_conv)
  have s1: "phase s1 = executing" "structuredPlan s1 = Some plan"
    "humanInput s1 = None" "waitingFor s1 = None"
    using f(4) by (simp_all add: s1_def apply_update_sel no_change_def)
  have "planning_node \<notin> fst ` set ((execute_node, s1) # rest)"
    using never unfolding rest .
  then have "planning_node \<notin> fst ` set (fst (snd (run svc tid w)))"
    by (simp add: trace)
  then show ?thesis
    using trace f s1 by blast
qed

lemma approved_world_ticket: "tickets approved_world ''T1'' = Some approved_ticket"
  by (simp add: approved_world_def)

theorem approved_plan_run_skips_planning_witness:
  "tickets approved_world ''T1'' = Some approved_ticket
   \<and> structured_plan approved_ticket = Some approved_plan
   \<and> approvedAt approved_plan \<noteq> None
   \<and> current_turn approved_ticket < max_turns approved_ticket
   \<and> (\<exists>s0 s1 rest.
         fst (snd (run (demo_service (says ''TASK_COMPLETE'')) ''T1'' approved_world)) =
           (wait_node, s0) # (execute_node, s1) # rest \<and>
         phase s0 = waiting \<and> humanInput s0 = Some approval_granted \<and>
         structuredPlan s0 = Some approved_plan \<and> phase s1 = executing)
   \<and> planning_node \<notin>
        fst ` set (fst (snd (run (demo_service (says ''TASK_COMPLETE'')) ''T1'' approved_world)))"
proof -
  have a: "structured_plan approved_ticket = Some approved_plan"
    by (simp add: approved_ticket_def)
  have b: "approvedAt approved_plan \<noteq> None"
    by (simp add: approved_plan_def)
  have c: "current_turn approved_ticket < max_turns approved_ticket"
    by (simp add: approved_ticket_def demo_ticket_def)
  have d: "''T1'' \<noteq> []"
    by simp
  have e: "getWorktree_resolves (demo_service (says ''TASK_COMPLETE'')) ''T1'' \<or>
           createWorktree_throws (demo_service (says ''TASK_COMPLETE'')) ''T1'' = None"
    by (simp add: demo_service_def)
  show ?thesis
    using approved_world_ticket a b c
      approved_plan_run_skips_planning [OF approved_world_ticket a b c d e]
    by blast
qed

section \<open>C6: the execute node\<close>

lemma ball_lessThan_Suc:
  "(\<forall>i \<in> {..<Suc n}. P i) \<longleftrightarrow> P 0 \<and> (\<forall>i \<in> {..<n}. P (Suc i))"
  by (auto simp: less_Suc_eq_0_disj)

lemma run_tool_calls_in_order:
  "\<exists>ws. ran_in_order tools (filter (registered tools) calls) ws
            (fst (run_tool_calls tools calls w)) \<and>
         ws ! 0 = w \<and>
         ws ! length (filter (registered tools) calls) = snd (run_tool_calls tools calls w)"
proof (induction calls arbitrary: w)
  case Nil
  show ?case
    by (rule exI [of _ "[w]"]) (simp add: ran_in_order_def)
next
  case (Cons c rest)
  show ?case
  proof (cases "find (\<lambda>t. tool_name t = tc_name c) tools")
    case None
    then show ?thesis using Cons.IH [of w] by (simp add: registered_def)
  next
    case (Some tool)
    let ?w1 = "snd (invoke tool (tc_args c) w)"
    let ?m = "tool_message (fst (invoke tool (tc_args c) w)) c"
    let ?rest = "filter (registered tools) rest"
    from Cons.IH [of ?w1] obtain ws where
      ws: "ran_in_order tools ?rest ws (fst (run_tool_calls tools rest ?w1))"
        "ws ! 0 = ?w1" "ws ! length ?rest = snd (run_tool_calls tools rest ?w1)"
      by blast
    have reg: "registered tools c"
      using Some by (simp add: registered_def)
    have run: "run_tool_calls tools (c # rest) w =
                 (?m # fst (run_tool_calls tools rest ?w1), snd (run_tool_calls tools rest ?w1))"
      using Some by (simp add: split_beta Let_def tool_message_def)
    have "ran_in_order tools (c # ?rest) (w # ws) (?m # fst (run_tool_calls tools rest ?w1))"
      using ws(1,2) Some
      by (auto simp: ran_in_order_def ball_lessThan_Suc split: option.splits)
    then show ?thesis
      using ws(3) reg
      by (intro exI [of _ "w # ws"]) (simp add: run del: run_tool_calls.simps)
  qed
qed

text \<open>
  C6, as the code has it. With a plan in the state, a current step index inside it and,
  when a ticket service is attached, a stored ticket that has a plan, the execute node
  returns normally for every answer of the reasoning engine. If the answer requests tool
  calls, the new phase is executing, the step index is unchanged, and the messages grow by
  the prompt (on a fresh execution), the answer and one tool message for every call that
  names a registered tool; these calls ran in the order requested, the first on the world
  in which the step had been marked in progress and the request logged, each next one on
  the world the one before it left, and the node returns the world the last one left;
  each tool message holds what its tool returned there, or \<^verbatim>\<open>Error: \<close> and what it
  threw; a call that names no registered tool leaves no message and does not change the
  world. If the answer requests no tool call, the new phase is reviewing, the step index
  is one more, and the stored step at the old index is completed, with the answer's text
  (or \<^verbatim>\<open>Step completed\<close> when the content is not a string) as output and a completion
  time.
\<close>

theorem execute_node_cases:
  assumes plan: "structuredPlan s = Some plan"
    and cur: "at_index (steps plan) (currentStepIndex s) = Some cur"
    and store: "ticketService \<longrightarrow>
                  (\<exists>t p. tickets w (ticketId s) = Some t \<and> structured_plan t = Some p)"
  shows "\<exists>u w'. createExecuteNode llm tools ticketService s w = (Inr u, w') \<and>
           (tool_calls (llm (llm_calls w) (execute_request s plan cur)) \<noteq> [] \<longrightarrow>
              phase (apply_update s u) = executing \<and>
              currentStepIndex (apply_update s u) = currentStepIndex s \<and>
              (\<exists>tool_msgs ws.
                 messages (apply_update s u) =
                   messages s @ execute_new_messages s plan cur @
                   [AIMsg (llm (llm_calls w) (execute_request s plan cur))] @ tool_msgs \<and>
                 ran_in_order tools
                   (filter (registered tools)
                      (tool_calls (llm (llm_calls w) (execute_request s plan cur))))
                   ws tool_msgs \<and>
                 ws ! 0 =
                   (snd (mark_in_progress ticketService s cur w))
                     \<lparr>llm_calls := llm_calls w @ [execute_request s plan cur]\<rparr> \<and>
                 ws ! length (filter (registered tools)
                        (tool_calls (llm (llm_calls w) (execute_request s plan cur)))) = w')) \<and>
           (tool_calls (llm (llm_calls w) (execute_request s plan cur)) = [] \<longrightarrow>
              phase (apply_update s u) = reviewing \<and>
              currentStepIndex (apply_update s u) = currentStepIndex s + 1 \<and>
              messages (apply_update s u) =
                messages s @ execute_new_messages s plan cur @
                [AIMsg (llm (llm_calls w) (execute_request s plan cur))] \<and>
              (ticketService \<longrightarrow>
                 (\<exists>t p. tickets w' (ticketId s) = Some t \<and> structured_plan t = Some p \<and>
                    (\<forall>st. at_index (steps p) (currentStepIndex s) = Some st \<longrightarrow>
                       step_status st = step_completed \<and>
                       step_output st =
                         Some (case content (llm (llm_calls w) (execute_request s plan cur)) of
                                 None \<Rightarrow> ''Step completed'' | Some c \<Rightarrow> c) \<and>
                       completedAt st \<noteq> None))))"
proof -
  let ?resp = "llm (llm_calls w) (execute_request s plan cur)"
  let ?new = "execute_new_messages s plan cur"
  let ?out = "case content ?resp of None \<Rightarrow> ''Step completed'' | Some c \<Rightarrow> c"
  obtain w1 where w1: "mark_in_progress ticketService s cur w = (None, w1)"
    "llm_calls w1 = llm_calls w"
    "ticketService \<longrightarrow> (\<exists>t p. tickets w1 (ticketId s) = Some t \<and> structured_plan t = Some p)"
    using mark_in_progress_ok [OF store] by blast
  let ?w2 = "w1\<lparr>llm_calls := llm_calls w1 @ [execute_request s plan cur]\<rparr>"
  have inv: "llm_invoke llm True ([SystemMessage SYSTEM_PROMPT] @ messages s @ ?new) w1 = (?resp, ?w2)"
    by (simp add: llm_invoke_def execute_request_def w1(2) Let_def)
  have w2: "?w2 = (snd (mark_in_progress ticketService s cur w))
                    \<lparr>llm_calls := llm_calls w @ [execute_request s plan cur]\<rparr>"
    by (simp add: w1(1,2))
  show ?thesis
  proof (cases "tool_calls ?resp = []")
    case False
    let ?r = "run_tool_calls tools (tool_calls ?resp) ?w2"
    have node: "createExecuteNode llm tools ticketService s w =
                  (Inr (no_change\<lparr>upd_messages := Some ((?new @ [AIMsg ?resp]) @ fst ?r),
                                  upd_tokenUsage := Some (extractTokenUsage ?resp),
                                  upd_phase := Some executing\<rparr>), snd ?r)"
      using False inv
      by (simp add: createExecuteNode_def plan cur w1(1) Let_def split_beta del: append_assoc)
    from run_tool_calls_in_order [of tools "tool_calls ?resp" ?w2]
    obtain ws where ws:
      "ran_in_order tools (filter (registered tools) (tool_calls ?resp)) ws (fst ?r)"
      "ws ! 0 = ?w2"
      "ws ! length (filter (registered tools) (tool_calls ?resp)) = snd ?r"
      by blast
    have "\<exists>tool_msgs ws.
            messages s @ ?new @ [AIMsg ?resp] @ fst ?r =
              messages s @ ?new @ [AIMsg ?resp] @ tool_msgs \<and>
            ran_in_order tools (filter (registered tools) (tool_calls ?resp)) ws tool_msgs \<and>
            ws ! 0 = (snd (mark_in_progress ticketService s cur w))
                       \<lparr>llm_calls := llm_calls w @ [execute_request s plan cur]\<rparr> \<and>
            ws ! length (filter (registered tools) (tool_calls ?resp)) = snd ?r"
      using ws w2 by (intro exI [of _ "fst ?r"] exI [of _ ws]) simp
    then show ?thesis
      using False
      by (simp add: node apply_update_sel no_change_def)
  next
    case True
    have 2: "ticketService \<longrightarrow>
               (\<exists>t p. tickets ?w2 (ticketId s) = Some t \<and> structured_plan t = Some p)"
      using w1(3) by simp
    obtain w3 where w3: "mark_completed ticketService s ?out ?w2 = (None, w3)"
      "ticketService \<longrightarrow>
         (\<exists>t p. tickets w3 (ticketId s) = Some t \<and> structured_plan t = Some p \<and>
            (\<forall>st. at_index (steps p) (currentStepIndex s) = Some st \<longrightarrow>
               step_status st = step_completed \<and> step_output st = Some ?out \<and>
               completedAt st \<noteq> None))"
      using mark_completed_ok [OF 2, of ?out] by blast
    have node: "createExecuteNode llm tools ticketService s w =
                  (Inr (no_change\<lparr>upd_messages := Some (?new @ [AIMsg ?resp]),
                                  upd_currentStepIndex := Some (currentStepIndex s + 1),
                                  upd_tokenUsage := Some (extractTokenUsage ?resp),
                                  upd_phase := Some reviewing\<rparr>), w3)"
      using True inv w3(1)
      by (simp add: createExecuteNode_def plan cur w1(1) Let_def)
    show ?thesis
      using True w3(2)
      by (simp add: node apply_update_sel no_change_def)
  qed
qed

lemma two_ids_registered:
  "filter (registered [echo_tool, fresh_id_tool])
     [fresh_id_call ''call-1'', ghost_call, fresh_id_call ''call-2''] =
   [fresh_id_call ''call-1'', fresh_id_call ''call-2'']"
  by (simp add: registered_def echo_tool_def fresh_id_tool_def fresh_id_call_def ghost_call_def)

lemma two_ids_run:
  "fst (createExecuteNode
          (asks_for [fresh_id_call ''call-1'', ghost_call, fresh_id_call ''call-2''])
          [echo_tool, fresh_id_tool] True exec_state
          (with_plan (demo_plan [step_pending]) demo_world)) =
     Inr (no_change
           \<lparr>upd_messages :=
              Some [HumanMessage (executePrompt exec_state (demo_plan [step_pending])
                                    (demo_step 0 step_pending)),
                    AIMsg \<lparr>content = Some [],
                           tool_calls =
                             [fresh_id_call ''call-1'', ghost_call, fresh_id_call ''call-2''],
                           usage = None\<rparr>,
                    ToolMessage ''uuid-0'' ''call-1'',
                    ToolMessage ''uuid-1'' ''call-2''],
            upd_tokenUsage := Some \<lparr>inputTokens = 0, outputTokens = 0, totalTokens = 0\<rparr>,
            upd_phase := Some executing\<rparr>)"
  by (simp add: createExecuteNode_def exec_state_facts mark_in_progress_def llm_invoke_def
      asks_for_def execute_new_messages_def extractTokenUsage_def Let_def fresh_id_call_def
      ghost_call_def echo_tool_def fresh_id_tool_def randomUUID_def call_id_def
      updatePlanStep_def get_def get_after_def Date_now_def db_update_def with_plan_def
      demo_world_def split_beta show_nat.simps)

theorem execute_node_cases_witness:
  "structuredPlan exec_state = Some (demo_plan [step_pending])
   \<and> at_index (steps (demo_plan [step_pending])) (currentStepIndex exec_state) =
       Some (demo_step 0 step_pending)
   \<and> (\<exists>t p. tickets (with_plan (demo_plan [step_pending]) demo_world) (ticketId exec_state) =
              Some t \<and> structured_plan t = Some p)
   \<and> (\<exists>u w' tool_msgs ws.
         createExecuteNode
           (asks_for [fresh_id_call ''call-1'', ghost_call, fresh_id_call ''call-2''])
           [echo_tool, fresh_id_tool] True exec_state
           (with_plan (demo_plan [step_pending]) demo_world) = (Inr u, w') \<and>
         phase (apply_update exec_state u) = executing \<and>
         currentStepIndex (apply_update exec_state u) = 0 \<and>
         ran_in_order [echo_tool, fresh_id_tool]
           [fresh_id_call ''call-1'', fresh_id_call ''call-2''] ws tool_msgs \<and>
         ws ! 2 = w')
   \<and> fst (createExecuteNode
            (asks_for [fresh_id_call ''call-1'', ghost_call, fresh_id_call ''call-2''])
            [echo_tool, fresh_id_tool] True exec_state
            (with_plan (demo_plan [step_pending]) demo_world)) =
       Inr (no_change
             \<lparr>upd_messages :=
                Some [HumanMessage (executePrompt exec_state (demo_plan [step_pending])
                                      (demo_step 0 step_pending)),
                      AIMsg \<lparr>content = Some [],
                             tool_calls =
                               [fresh_id_call ''call-1'', ghost_call, fresh_id_call ''call-2''],
                             usage = None\<rparr>,
                      ToolMessage ''uuid-0'' ''call-1'',
                      ToolMessage ''uuid-1'' ''call-2''],
              upd_tokenUsage := Some \<lparr>inputTokens = 0, outputTokens = 0, totalTokens = 0\<rparr>,
              upd_phase := Some executing\<rparr>)"
proof -
  let ?w = "with_plan (demo_plan [step_pending]) demo_world"
  let ?llm = "asks_for [fresh_id_call ''call-1'', ghost_call, fresh_id_call ''call-2'']"
  let ?tools = "[echo_tool, fresh_id_tool]"
  have stored: "\<exists>t p. tickets ?w (ticketId exec_state) = Some t \<and> structured_plan t = Some p"
    by (simp add: exec_state_facts with_plan_ticket)
  then have store: "True \<longrightarrow>
                 (\<exists>t p. tickets ?w (ticketId exec_state) = Some t \<and> structured_plan t = Some p)"
    by simp
  have calls: "tool_calls (?llm (llm_calls ?w)
                 (execute_request exec_state (demo_plan [step_pending]) (demo_step 0 step_pending))) =
               [fresh_id_call ''call-1'', ghost_call, fresh_id_call ''call-2'']"
    by (simp add: asks_for_def)
  from execute_node_cases [OF exec_state_facts(1) exec_state_facts(2) store, of ?llm ?tools]
  have "\<exists>u w' tool_msgs ws.
          createExecuteNode ?llm ?tools True exec_state ?w = (Inr u, w') \<and>
          phase (apply_update exec_state u) = executing \<and>
          currentStepIndex (apply_update exec_state u) = 0 \<and>
          ran_in_order ?tools [fresh_id_call ''call-1'', fresh_id_call ''call-2''] ws tool_msgs \<and>
          ws ! 2 = w'"
    unfolding calls two_ids_registered
    by (simp add: exec_state_facts(4) numeral_2_eq_2) blast
  then show ?thesis
    using exec_state_facts(1,2) stored two_ids_run by blast
qed

text \<open>
  C6 as stated fails: the reasoning engine requests a call of a tool that is not
  registered; the node returns the prompt and the answer only, with no result and no
  error for that call.
\<close>

theorem unknown_tool_call_counterexample:
  "fst (createExecuteNode (asks_for [ghost_call]) [] False exec_state demo_world) =
     Inr (no_change
           \<lparr>upd_messages :=
              Some [HumanMessage (executePrompt exec_state (demo_plan [step_pending])
                                    (demo_step 0 step_pending)),
                    AIMsg \<lparr>content = Some [], tool_calls = [ghost_call], usage = None\<rparr>],
            upd_tokenUsage := Some \<lparr>inputTokens = 0, outputTokens = 0, totalTokens = 0\<rparr>,
            upd_phase := Some executing\<rparr>)"
  by (simp add: createExecuteNode_def exec_state_facts mark_in_progress_def llm_invoke_def
      asks_for_def execute_new_messages_def extractTokenUsage_def Let_def)

end
